theory Spec2Isabelle
  imports Main "HOL-Library.Word"
begin

unbundle bit_operations_syntax

section \<open>Data model\<close>

text \<open>
  The utilities of \<^verbatim>\<open>aes_utilities.h\<close> are templates over an unsigned integer type
  \<open>T\<close> of at least 32 bits. They are embedded here at \<open>T = std::uint32_t\<close>, the word
  type of the AES state: a column of the state is one 32-bit word, its most significant
  byte being row 0.
\<close>

type_synonym u8 = "8 word"
type_synonym u32 = "32 word"

text \<open>
  \<^verbatim>\<open>aes_tables.h\<close> is included by the utilities but is not among the sources. Its
  arrays have 256 entries and are only ever indexed by an expression masked with
  \<^verbatim>\<open>0xff\<close>, so each array is a function of a byte. The utilities take the tables
  as a parameter.
\<close>

record tables =
  Sbox :: "u8 \<Rightarrow> u8"
  InverseSbox :: "u8 \<Rightarrow> u8"
  Enc0 :: "u8 \<Rightarrow> u32"
  Enc1 :: "u8 \<Rightarrow> u32"
  Enc2 :: "u8 \<Rightarrow> u32"
  Enc3 :: "u8 \<Rightarrow> u32"
  Dec0 :: "u8 \<Rightarrow> u32"
  Dec1 :: "u8 \<Rightarrow> u32"
  Dec2 :: "u8 \<Rightarrow> u32"
  Dec3 :: "u8 \<Rightarrow> u32"

section \<open>The utilities of aes\_utilities.h\<close>

text \<open>
  \<^verbatim>\<open>GetWordFromBuffer\<close> reads through a raw pointer: a read past the end of the
  buffer is undefined in the source, so every statement about it bounds the offset by
  the length of the buffer. The offset is a \<^verbatim>\<open>size_t\<close>; \<^verbatim>\<open>offset << 2\<close> does not
  wrap for an offset inside a buffer that exists in memory, and is \<open>4 * offset\<close> here.
\<close>

definition GetWordFromBuffer :: "u8 list \<Rightarrow> nat \<Rightarrow> u32" where
  "GetWordFromBuffer buffer offset =
     push_bit 24 (ucast (buffer ! (4 * offset))) OR
     push_bit 16 (ucast (buffer ! (4 * offset + 1))) OR
     push_bit 8 (ucast (buffer ! (4 * offset + 2))) OR
     ucast (buffer ! (4 * offset + 3))"

text \<open>
  \<^verbatim>\<open>PutStateColumn\<close> assigns four elements of the output buffer, in this order; the
  model returns the buffer after the four assignments. The source does not check the
  column ("must be constrained to values between 0 and 3, but no error checking is
  performed here"); a write past the end of the buffer is undefined there, so every
  statement about it bounds the column and fixes the length of the buffer.
\<close>

definition PutStateColumn :: "u32 \<Rightarrow> nat \<Rightarrow> u8 list \<Rightarrow> u8 list" where
  "PutStateColumn value column ciphertext =
     (let c0 = ciphertext[4 * column := ucast (drop_bit 24 value AND 0xff)];
          c1 = c0[4 * column + 1 := ucast (drop_bit 16 value AND 0xff)];
          c2 = c1[4 * column + 2 := ucast (drop_bit 8 value AND 0xff)]
      in c2[4 * column + 3 := ucast (value AND 0xff)])"

text \<open>
  Modelled from the spec: \<^verbatim>\<open>Terra::BitUtil::RotateLeft\<close> comes from
  \<^verbatim>\<open>terra/bitutil/bit_rotation.h\<close>, which is not among the sources. The spec words
  the call \<^verbatim>\<open>RotateLeft(word, 8, 32, 0xffff'ffff)\<close> as a left rotation by 8 bits
  within 32 bits: the value shifted left by \<open>bits\<close>, joined with the value shifted
  right by \<open>width - bits\<close>, under the mask of the width.
\<close>

definition RotateLeft :: "'a::len word \<Rightarrow> nat \<Rightarrow> nat \<Rightarrow> 'a word \<Rightarrow> 'a word" where
  "RotateLeft value bits width msk =
     (push_bit bits value OR drop_bit (width - bits) value) AND msk"

definition RotWord :: "u32 \<Rightarrow> u32" where
  "RotWord word = RotateLeft word 8 32 0xffffffff"

definition SubBytes :: "tables \<Rightarrow> u32 \<Rightarrow> u32" where
  "SubBytes T value =
     push_bit 24 (ucast (Sbox T (ucast (drop_bit 24 value AND 0xff)))) OR
     push_bit 16 (ucast (Sbox T (ucast (drop_bit 16 value AND 0xff)))) OR
     push_bit 8 (ucast (Sbox T (ucast (drop_bit 8 value AND 0xff)))) OR
     ucast (Sbox T (ucast (value AND 0xff)))"

text \<open>The state is the source's array \<^verbatim>\<open>const T state[4]\<close>: a list of four words.\<close>

definition SubBytesShiftRows :: "tables \<Rightarrow> nat \<Rightarrow> u32 list \<Rightarrow> u32" where
  "SubBytesShiftRows T column state =
     push_bit 24 (ucast (Sbox T (ucast (drop_bit 24 (state ! ((0 + column) mod 4)) AND 0xff)))) OR
     push_bit 16 (ucast (Sbox T (ucast (drop_bit 16 (state ! ((1 + column) mod 4)) AND 0xff)))) OR
     push_bit 8 (ucast (Sbox T (ucast (drop_bit 8 (state ! ((2 + column) mod 4)) AND 0xff)))) OR
     ucast (Sbox T (ucast (state ! ((3 + column) mod 4) AND 0xff)))"

definition InvSubBytesShiftRows :: "tables \<Rightarrow> nat \<Rightarrow> u32 list \<Rightarrow> u32" where
  "InvSubBytesShiftRows T column state =
     push_bit 24 (ucast (InverseSbox T (ucast (drop_bit 24 (state ! ((0 + column) mod 4)) AND 0xff)))) OR
     push_bit 16 (ucast (InverseSbox T (ucast (drop_bit 16 (state ! ((3 + column) mod 4)) AND 0xff)))) OR
     push_bit 8 (ucast (InverseSbox T (ucast (drop_bit 8 (state ! ((2 + column) mod 4)) AND 0xff)))) OR
     ucast (InverseSbox T (ucast (state ! ((1 + column) mod 4) AND 0xff)))"

definition AddRoundKey :: "u32 \<Rightarrow> u32 \<Rightarrow> u32" where
  "AddRoundKey x y = x XOR y"

definition MixColShiftRow :: "tables \<Rightarrow> nat \<Rightarrow> u32 list \<Rightarrow> u32" where
  "MixColShiftRow T column state =
     Enc0 T (ucast (drop_bit 24 (state ! ((0 + column) mod 4)) AND 0xff)) XOR
     Enc1 T (ucast (drop_bit 16 (state ! ((1 + column) mod 4)) AND 0xff)) XOR
     Enc2 T (ucast (drop_bit 8 (state ! ((2 + column) mod 4)) AND 0xff)) XOR
     Enc3 T (ucast (state ! ((3 + column) mod 4) AND 0xff))"

definition FastInvMixColumn :: "tables \<Rightarrow> u32 \<Rightarrow> u32" where
  "FastInvMixColumn T value =
     Dec0 T (Sbox T (ucast (drop_bit 24 value AND 0xff))) XOR
     Dec1 T (Sbox T (ucast (drop_bit 16 value AND 0xff))) XOR
     Dec2 T (Sbox T (ucast (drop_bit 8 value AND 0xff))) XOR
     Dec3 T (Sbox T (ucast (value AND 0xff)))"

definition InvMixColShiftRow :: "tables \<Rightarrow> nat \<Rightarrow> u32 list \<Rightarrow> u32" where
  "InvMixColShiftRow T column state =
     Dec0 T (ucast (drop_bit 24 (state ! ((0 + column) mod 4)) AND 0xff)) XOR
     Dec1 T (ucast (drop_bit 16 (state ! ((3 + column) mod 4)) AND 0xff)) XOR
     Dec2 T (ucast (drop_bit 8 (state ! ((2 + column) mod 4)) AND 0xff)) XOR
     Dec3 T (ucast (state ! ((1 + column) mod 4) AND 0xff))"

section \<open>CPU feature detection (cpu\_check.cpp)\<close>

text \<open>
  The preprocessor selects one of four bodies of \<^verbatim>\<open>CPUSupportsAES_NI\<close>: none of the
  three CPUID bodies when \<^verbatim>\<open>TERRA_USE_INTEL_AES_INTRINSICS\<close> is not defined, else the
  one for Windows, for Linux, or the inline-assembly one. The CPUID instruction is a
  function from the leaf to the four registers it returns.
\<close>

datatype build = NoIntrinsics | Win32 | Linux | OtherX86

record cpuid_regs =
  eax :: u32
  ebx :: u32
  ecx :: u32
  edx :: u32

definition INTEL_AES_BIT :: u32 where
  "INTEL_AES_BIT = push_bit 25 1"

text \<open>
  The Windows body keeps the registers in an array of \<^verbatim>\<open>int\<close>, so its comparison
  \<^verbatim>\<open>cpu_info[0] < 1\<close> is signed; the other two compare a \<^verbatim>\<open>std::uint32_t\<close>.
\<close>

fun CPUSupportsAES_NI :: "build \<Rightarrow> (u32 \<Rightarrow> cpuid_regs) \<Rightarrow> bool" where
  "CPUSupportsAES_NI NoIntrinsics cpuid = False"
| "CPUSupportsAES_NI Win32 cpuid =
     (if sint (eax (cpuid 0)) < 1 then False
      else (ecx (cpuid 1) AND INTEL_AES_BIT) \<noteq> 0)"
| "CPUSupportsAES_NI Linux cpuid =
     (if eax (cpuid 0) < 1 then False
      else (ecx (cpuid 1) AND INTEL_AES_BIT) \<noteq> 0)"
| "CPUSupportsAES_NI OtherX86 cpuid =
     (if eax (cpuid 0) < 1 then False
      else (ecx (cpuid 1) AND INTEL_AES_BIT) \<noteq> 0)"

section \<open>Notions of FIPS 197 used to state the properties\<close>

text \<open>
  The bytes of a 32-bit word by position, \<open>byte3\<close> the most significant, written with
  division rather than with the shifts and masks of the source.
\<close>

definition byte3 :: "u32 \<Rightarrow> u8" where
  "byte3 w = of_nat (unat w div 2 ^ 24 mod 256)"

definition byte2 :: "u32 \<Rightarrow> u8" where
  "byte2 w = of_nat (unat w div 2 ^ 16 mod 256)"

definition byte1 :: "u32 \<Rightarrow> u8" where
  "byte1 w = of_nat (unat w div 2 ^ 8 mod 256)"

definition byte0 :: "u32 \<Rightarrow> u8" where
  "byte0 w = of_nat (unat w mod 256)"

text \<open>The word with the four given bytes, most significant first.\<close>

definition mkword :: "u8 \<Rightarrow> u8 \<Rightarrow> u8 \<Rightarrow> u8 \<Rightarrow> u32" where
  "mkword a b c d =
     push_bit 24 (ucast a) OR push_bit 16 (ucast b) OR push_bit 8 (ucast c) OR ucast d"

text \<open>
  The state as the 4 x 4 byte matrix of FIPS 197: \<open>cell state r c\<close> is the byte in row
  \<open>r\<close> of column \<open>c\<close>. InvShiftRows (FIPS 197, 5.3.1) moves row \<open>r\<close> cyclically by
  \<open>r\<close> columns to the right: the byte at row \<open>r\<close>, column \<open>c\<close> of the result is the
  byte at row \<open>r\<close>, column \<open>c - r\<close> (modulo 4) of the argument.
\<close>

definition cell :: "u32 list \<Rightarrow> nat \<Rightarrow> nat \<Rightarrow> u8" where
  "cell state r c =
     (if r = 0 then byte3 (state ! c) else if r = 1 then byte2 (state ! c)
      else if r = 2 then byte1 (state ! c) else byte0 (state ! c))"

definition InvShiftRows :: "u32 list \<Rightarrow> nat \<Rightarrow> nat \<Rightarrow> u8" where
  "InvShiftRows state r c = cell state r ((c + 4 - r) mod 4)"

text \<open>
  Multiplication in GF(2^8) modulo \<open>x^8 + x^4 + x^3 + x + 1\<close> (0x11B): \<open>xtime\<close> is the
  multiplication by \<open>x\<close> (FIPS 197, 4.2.1), \<open>gf_mul a b\<close> adds the multiples of \<open>b\<close>
  by the powers of \<open>x\<close> that occur in \<open>a\<close>.
\<close>

definition xtime :: "u8 \<Rightarrow> u8" where
  "xtime b = (if bit b 7 then push_bit 1 b XOR 0x1b else push_bit 1 b)"

definition gf_mul :: "u8 \<Rightarrow> u8 \<Rightarrow> u8" where
  "gf_mul a b =
     (if bit a 0 then b else 0) XOR
     (if bit a 1 then xtime b else 0) XOR
     (if bit a 2 then (xtime ^^ 2) b else 0) XOR
     (if bit a 3 then (xtime ^^ 3) b else 0) XOR
     (if bit a 4 then (xtime ^^ 4) b else 0) XOR
     (if bit a 5 then (xtime ^^ 5) b else 0) XOR
     (if bit a 6 then (xtime ^^ 6) b else 0) XOR
     (if bit a 7 then (xtime ^^ 7) b else 0)"

text \<open>
  MixColumns and InvMixColumns on one column (FIPS 197, 5.1.3 and 5.3.3): the column,
  row 0 in the most significant byte, is multiplied by the circulant matrix with first
  row \<open>02 03 01 01\<close>, respectively \<open>0e 0b 0d 09\<close>.
\<close>

definition MixColumn :: "u32 \<Rightarrow> u32" where
  "MixColumn w =
     (let s0 = byte3 w; s1 = byte2 w; s2 = byte1 w; s3 = byte0 w
      in mkword (gf_mul 2 s0 XOR gf_mul 3 s1 XOR s2 XOR s3)
                (s0 XOR gf_mul 2 s1 XOR gf_mul 3 s2 XOR s3)
                (s0 XOR s1 XOR gf_mul 2 s2 XOR gf_mul 3 s3)
                (gf_mul 3 s0 XOR s1 XOR s2 XOR gf_mul 2 s3))"

definition InvMixColumn :: "u32 \<Rightarrow> u32" where
  "InvMixColumn w =
     (let s0 = byte3 w; s1 = byte2 w; s2 = byte1 w; s3 = byte0 w
      in mkword (gf_mul 0x0e s0 XOR gf_mul 0x0b s1 XOR gf_mul 0x0d s2 XOR gf_mul 0x09 s3)
                (gf_mul 0x09 s0 XOR gf_mul 0x0e s1 XOR gf_mul 0x0b s2 XOR gf_mul 0x0d s3)
                (gf_mul 0x0d s0 XOR gf_mul 0x09 s1 XOR gf_mul 0x0e s2 XOR gf_mul 0x0b s3)
                (gf_mul 0x0b s0 XOR gf_mul 0x0d s1 XOR gf_mul 0x09 s2 XOR gf_mul 0x0e s3))"

section \<open>The constant tables\<close>

text \<open>
  Modelled from the spec: the arrays \<^verbatim>\<open>Sbox\<close> and \<^verbatim>\<open>InverseSbox\<close> of
  \<^verbatim>\<open>aes_tables.h\<close>, which is not among the sources. Section 4.1 of the
  specification: the forward S-box is the substitution table of FIPS 197 (its Figure 7),
  the inverse S-box its compositional inverse (Figure 14).
\<close>

definition Sbox_table :: "u8 list" where
  "Sbox_table =
    [0x63, 0x7c, 0x77, 0x7b, 0xf2, 0x6b, 0x6f, 0xc5, 0x30, 0x01, 0x67, 0x2b, 0xfe, 0xd7, 0xab, 0x76,
     0xca, 0x82, 0xc9, 0x7d, 0xfa, 0x59, 0x47, 0xf0, 0xad, 0xd4, 0xa2, 0xaf, 0x9c, 0xa4, 0x72, 0xc0,
     0xb7, 0xfd, 0x93, 0x26, 0x36, 0x3f, 0xf7, 0xcc, 0x34, 0xa5, 0xe5, 0xf1, 0x71, 0xd8, 0x31, 0x15,
     0x04, 0xc7, 0x23, 0xc3, 0x18, 0x96, 0x05, 0x9a, 0x07, 0x12, 0x80, 0xe2, 0xeb, 0x27, 0xb2, 0x75,
     0x09, 0x83, 0x2c, 0x1a, 0x1b, 0x6e, 0x5a, 0xa0, 0x52, 0x3b, 0xd6, 0xb3, 0x29, 0xe3, 0x2f, 0x84,
     0x53, 0xd1, 0x00, 0xed, 0x20, 0xfc, 0xb1, 0x5b, 0x6a, 0xcb, 0xbe, 0x39, 0x4a, 0x4c, 0x58, 0xcf,
     0xd0, 0xef, 0xaa, 0xfb, 0x43, 0x4d, 0x33, 0x85, 0x45, 0xf9, 0x02, 0x7f, 0x50, 0x3c, 0x9f, 0xa8,
     0x51, 0xa3, 0x40, 0x8f, 0x92, 0x9d, 0x38, 0xf5, 0xbc, 0xb6, 0xda, 0x21, 0x10, 0xff, 0xf3, 0xd2,
     0xcd, 0x0c, 0x13, 0xec, 0x5f, 0x97, 0x44, 0x17, 0xc4, 0xa7, 0x7e, 0x3d, 0x64, 0x5d, 0x19, 0x73,
     0x60, 0x81, 0x4f, 0xdc, 0x22, 0x2a, 0x90, 0x88, 0x46, 0xee, 0xb8, 0x14, 0xde, 0x5e, 0x0b, 0xdb,
     0xe0, 0x32, 0x3a, 0x0a, 0x49, 0x06, 0x24, 0x5c, 0xc2, 0xd3, 0xac, 0x62, 0x91, 0x95, 0xe4, 0x79,
     0xe7, 0xc8, 0x37, 0x6d, 0x8d, 0xd5, 0x4e, 0xa9, 0x6c, 0x56, 0xf4, 0xea, 0x65, 0x7a, 0xae, 0x08,
     0xba, 0x78, 0x25, 0x2e, 0x1c, 0xa6, 0xb4, 0xc6, 0xe8, 0xdd, 0x74, 0x1f, 0x4b, 0xbd, 0x8b, 0x8a,
     0x70, 0x3e, 0xb5, 0x66, 0x48, 0x03, 0xf6, 0x0e, 0x61, 0x35, 0x57, 0xb9, 0x86, 0xc1, 0x1d, 0x9e,
     0xe1, 0xf8, 0x98, 0x11, 0x69, 0xd9, 0x8e, 0x94, 0x9b, 0x1e, 0x87, 0xe9, 0xce, 0x55, 0x28, 0xdf,
     0x8c, 0xa1, 0x89, 0x0d, 0xbf, 0xe6, 0x42, 0x68, 0x41, 0x99, 0x2d, 0x0f, 0xb0, 0x54, 0xbb, 0x16]"

text \<open>
  Modelled from the spec: the inverse S-box of \<^verbatim>\<open>aes_tables.h\<close> (see above).
\<close>

definition InverseSbox_table :: "u8 list" where
  "InverseSbox_table =
    [0x52, 0x09, 0x6a, 0xd5, 0x30, 0x36, 0xa5, 0x38, 0xbf, 0x40, 0xa3, 0x9e, 0x81, 0xf3, 0xd7, 0xfb,
     0x7c, 0xe3, 0x39, 0x82, 0x9b, 0x2f, 0xff, 0x87, 0x34, 0x8e, 0x43, 0x44, 0xc4, 0xde, 0xe9, 0xcb,
     0x54, 0x7b, 0x94, 0x32, 0xa6, 0xc2, 0x23, 0x3d, 0xee, 0x4c, 0x95, 0x0b, 0x42, 0xfa, 0xc3, 0x4e,
     0x08, 0x2e, 0xa1, 0x66, 0x28, 0xd9, 0x24, 0xb2, 0x76, 0x5b, 0xa2, 0x49, 0x6d, 0x8b, 0xd1, 0x25,
     0x72, 0xf8, 0xf6, 0x64, 0x86, 0x68, 0x98, 0x16, 0xd4, 0xa4, 0x5c, 0xcc, 0x5d, 0x65, 0xb6, 0x92,
     0x6c, 0x70, 0x48, 0x50, 0xfd, 0xed, 0xb9, 0xda, 0x5e, 0x15, 0x46, 0x57, 0xa7, 0x8d, 0x9d, 0x84,
     0x90, 0xd8, 0xab, 0x00, 0x8c, 0xbc, 0xd3, 0x0a, 0xf7, 0xe4, 0x58, 0x05, 0xb8, 0xb3, 0x45, 0x06,
     0xd0, 0x2c, 0x1e, 0x8f, 0xca, 0x3f, 0x0f, 0x02, 0xc1, 0xaf, 0xbd, 0x03, 0x01, 0x13, 0x8a, 0x6b,
     0x3a, 0x91, 0x11, 0x41, 0x4f, 0x67, 0xdc, 0xea, 0x97, 0xf2, 0xcf, 0xce, 0xf0, 0xb4, 0xe6, 0x73,
     0x96, 0xac, 0x74, 0x22, 0xe7, 0xad, 0x35, 0x85, 0xe2, 0xf9, 0x37, 0xe8, 0x1c, 0x75, 0xdf, 0x6e,
     0x47, 0xf1, 0x1a, 0x71, 0x1d, 0x29, 0xc5, 0x89, 0x6f, 0xb7, 0x62, 0x0e, 0xaa, 0x18, 0xbe, 0x1b,
     0xfc, 0x56, 0x3e, 0x4b, 0xc6, 0xd2, 0x79, 0x20, 0x9a, 0xdb, 0xc0, 0xfe, 0x78, 0xcd, 0x5a, 0xf4,
     0x1f, 0xdd, 0xa8, 0x33, 0x88, 0x07, 0xc7, 0x31, 0xb1, 0x12, 0x10, 0x59, 0x27, 0x80, 0xec, 0x5f,
     0x60, 0x51, 0x7f, 0xa9, 0x19, 0xb5, 0x4a, 0x0d, 0x2d, 0xe5, 0x7a, 0x9f, 0x93, 0xc9, 0x9c, 0xef,
     0xa0, 0xe0, 0x3b, 0x4d, 0xae, 0x2a, 0xf5, 0xb0, 0xc8, 0xeb, 0xbb, 0x3c, 0x83, 0x53, 0x99, 0x61,
     0x17, 0x2b, 0x04, 0x7e, 0xba, 0x77, 0xd6, 0x26, 0xe1, 0x69, 0x14, 0x63, 0x55, 0x21, 0x0c, 0x7d]"

text \<open>
  Modelled from the spec: the arrays \<^verbatim>\<open>Enc0\<close> .. \<^verbatim>\<open>Enc3\<close> and \<^verbatim>\<open>Dec0\<close> ..
  \<^verbatim>\<open>Dec3\<close> of \<^verbatim>\<open>aes_tables.h\<close>, which is not among the sources. Section 4.1:
  \<open>Enc_k[b]\<close> is rotate-left-by-\<open>(8\<cdot>k)\<close> of the 32-bit word
  \<open>(2\<cdot>S[b], S[b], S[b], 3\<cdot>S[b])\<close> in GF(2^8), and \<open>Dec_k[b]\<close> is the analogous word built
  from the inverse S-box and the inverse MixColumns matrix \<open>(0e, 09, 0d, 0b)\<close>. The
  tuple is written most significant byte first, as the columns of the state are
  (section 3), and the rotation is the left rotation of the 32-bit word, as that of
  \<open>RotWord\<close> in section 4.2.
\<close>

definition spec_tables :: tables where
  "spec_tables =
     (let S = (\<lambda>b. Sbox_table ! unat b);
          IS = (\<lambda>b. InverseSbox_table ! unat b);
          E = (\<lambda>b. mkword (gf_mul 2 (S b)) (S b) (S b) (gf_mul 3 (S b)));
          D = (\<lambda>b. mkword (gf_mul 0x0e (IS b)) (gf_mul 0x09 (IS b))
                            (gf_mul 0x0d (IS b)) (gf_mul 0x0b (IS b)))
      in \<lparr>Sbox = S, InverseSbox = IS,
          Enc0 = E, Enc1 = (\<lambda>b. word_rotl 8 (E b)),
          Enc2 = (\<lambda>b. word_rotl 16 (E b)), Enc3 = (\<lambda>b. word_rotl 24 (E b)),
          Dec0 = D, Dec1 = (\<lambda>b. word_rotl 8 (D b)),
          Dec2 = (\<lambda>b. word_rotl 16 (D b)), Dec3 = (\<lambda>b. word_rotl 24 (D b))\<rparr>)"

text \<open>
  The tables with the rotation taken to the right instead, everything else as in
  \<open>spec_tables\<close>. The tuple \<open>(2\<cdot>S[b], S[b], S[b], 3\<cdot>S[b])\<close> is column 0 of the
  MixColumns matrix, and \<^verbatim>\<open>MixColShiftRow\<close> looks \<open>Enc_k\<close> up at the byte of row \<open>k\<close>;
  column \<open>k\<close> of the circulant matrix is column 0 moved \<open>k\<close> rows down, which for a
  word with row 0 in its most significant byte is the rotation by \<open>8\<cdot>k\<close> bits to the
  right. These are the tables under which the engine below reproduces the three
  FIPS 197 Appendix C vectors that section 8 of the specification prescribes (lemmas
  \<open>fips197_vector_128\<close>, \<open>fips197_vector_192\<close>, \<open>fips197_vector_256\<close>), which it does not
  under \<open>spec_tables\<close> (lemma \<open>spec_tables_not_fips197\<close>). The amended claims C1 and C2
  are stated for them.
\<close>

definition aes_tables :: tables where
  "aes_tables =
     (let S = (\<lambda>b. Sbox_table ! unat b);
          IS = (\<lambda>b. InverseSbox_table ! unat b);
          E = (\<lambda>b. mkword (gf_mul 2 (S b)) (S b) (S b) (gf_mul 3 (S b)));
          D = (\<lambda>b. mkword (gf_mul 0x0e (IS b)) (gf_mul 0x09 (IS b))
                            (gf_mul 0x0d (IS b)) (gf_mul 0x0b (IS b)))
      in \<lparr>Sbox = S, InverseSbox = IS,
          Enc0 = E, Enc1 = (\<lambda>b. word_rotr 8 (E b)),
          Enc2 = (\<lambda>b. word_rotr 16 (E b)), Enc3 = (\<lambda>b. word_rotr 24 (E b)),
          Dec0 = D, Dec1 = (\<lambda>b. word_rotr 8 (D b)),
          Dec2 = (\<lambda>b. word_rotr 16 (D b)), Dec3 = (\<lambda>b. word_rotr 24 (D b))\<rparr>)"

text \<open>
  Modelled from the spec: the round constants of \<^verbatim>\<open>aes_tables.h\<close>. Section 4.1:
  \<open>Rcon[i]\<close> for \<open>i \<ge> 1\<close> is the byte \<open>x^(i-1)\<close> in GF(2^8) modulo 0x11B, placed in the
  high byte of a 32-bit word with zero elsewhere.
\<close>

definition Rcon :: "nat \<Rightarrow> u32" where
  "Rcon i = push_bit 24 (ucast ((xtime ^^ (i - 1)) 1))"

section \<open>Key schedule and block engine\<close>

text \<open>
  The engine (key expansion, \<^verbatim>\<open>Encrypt\<close>, \<^verbatim>\<open>Decrypt\<close>) is not among the sources; it
  is modelled from sections 3, 4.3 and 4.4 of the specification, on top of the utilities
  above. Only the software engine is modelled, so the backend selector of the engine
  state is left out.
\<close>

datatype error = InvalidKeyLength

datatype variant = AES128 | AES192 | AES256

text \<open>
  Modelled from the spec: the key length in words, section 3: \<open>Nk = 4/6/8\<close>.
\<close>

fun Nk :: "variant \<Rightarrow> nat" where
  "Nk AES128 = 4"
| "Nk AES192 = 6"
| "Nk AES256 = 8"

text \<open>
  Modelled from the spec: the number of rounds, section 3: \<open>Nr = 10/12/14\<close>.
\<close>

fun Nr :: "variant \<Rightarrow> nat" where
  "Nr AES128 = 10"
| "Nr AES192 = 12"
| "Nr AES256 = 14"

record engine =
  variant :: variant
  schedule :: "u32 list"
  inverse_schedule :: "u32 list"

text \<open>
  Modelled from the spec: one step of the forward expansion, section 4.3. For \<open>i\<close> in
  \<open>[Nk, (Nr+1)\<cdot>Nb)\<close>: \<open>temp \<leftarrow> W[i-1]\<close>; if \<open>i mod Nk = 0\<close> then
  \<open>temp \<leftarrow> SubWord(RotWord(temp)) XOR Rcon[i/Nk]\<close>, else if \<open>Nk = 8\<close> and
  \<open>i mod Nk = 4\<close> then \<open>temp \<leftarrow> SubWord(temp)\<close>; \<open>W[i] \<leftarrow> W[i-Nk] XOR temp\<close>. SubWord is
  \<^verbatim>\<open>SubBytes\<close> of the utilities. The step appends \<open>W[i]\<close> to the words so far.
\<close>

definition expand_word :: "tables \<Rightarrow> nat \<Rightarrow> nat \<Rightarrow> u32 list \<Rightarrow> u32 list" where
  "expand_word T nk i W =
     (let temp = W ! (i - 1);
          temp = (if i mod nk = 0 then SubBytes T (RotWord temp) XOR Rcon (i div nk)
                  else if nk = 8 \<and> i mod nk = 4 then SubBytes T temp
                  else temp)
      in W @ [W ! (i - nk) XOR temp])"

text \<open>
  Modelled from the spec: the forward expansion, section 4.3: \<open>W[i] = LoadWord(key, i)\<close>
  for \<open>i\<close> in \<open>[0, Nk)\<close>, then the step above for \<open>i\<close> in \<open>[Nk, (Nr+1)\<cdot>Nb)\<close>, with
  \<open>Nb = 4\<close>.
\<close>

definition ExpandKey :: "tables \<Rightarrow> variant \<Rightarrow> u8 list \<Rightarrow> u32 list" where
  "ExpandKey T v key =
     fold (expand_word T (Nk v)) [Nk v..<(Nr v + 1) * 4]
       (map (GetWordFromBuffer key) [0..<Nk v])"

text \<open>
  Modelled from the spec: the inverse expansion, section 4.3: a copy of \<open>W\<close> in which,
  for each round \<open>r\<close> in \<open>[1, Nr)\<close>, the words \<open>[4r, 4r+4)\<close> are replaced by
  \<^verbatim>\<open>FastInvMixColumn\<close> of them; the words of rounds 0 and \<open>Nr\<close> are unchanged.
\<close>

definition InverseExpandKey :: "tables \<Rightarrow> variant \<Rightarrow> u32 list \<Rightarrow> u32 list" where
  "InverseExpandKey T v W =
     map (\<lambda>i. if 4 \<le> i \<and> i < 4 * Nr v then FastInvMixColumn T (W ! i) else W ! i)
       [0..<length W]"

text \<open>
  Modelled from the spec: \<^verbatim>\<open>SetKey\<close> (and construction with a key), sections 3, 6
  and 7: a key of 16, 24 or 32 bytes selects the variant and both schedules are computed;
  any other length fails with InvalidKeyLength and no engine is produced.
\<close>

definition SetKey :: "tables \<Rightarrow> u8 list \<Rightarrow> error + engine" where
  "SetKey T key =
     (if length key = 16 \<or> length key = 24 \<or> length key = 32 then
        (let v = (if length key = 16 then AES128
                  else if length key = 24 then AES192 else AES256);
             W = ExpandKey T v key
         in Inr \<lparr>variant = v, schedule = W, inverse_schedule = InverseExpandKey T v W\<rparr>)
      else Inl InvalidKeyLength)"

text \<open>
  Modelled from the spec: the first step of \<^verbatim>\<open>Encrypt\<close> and \<^verbatim>\<open>Decrypt\<close>, section
  4.4: \<open>s[c] = LoadWord(block_in, c)\<close> for the four columns.
\<close>

definition LoadState :: "u8 list \<Rightarrow> u32 list" where
  "LoadState block_in = map (\<lambda>c. GetWordFromBuffer block_in c) [0..<4]"

text \<open>
  Modelled from the spec: the last step of \<^verbatim>\<open>Encrypt\<close> and \<^verbatim>\<open>Decrypt\<close>, section 4.4:
  \<open>StoreWord(s[c], c, block_out)\<close> for the four columns, into a fresh block of 16 bytes.
\<close>

definition StoreState :: "u32 list \<Rightarrow> u8 list" where
  "StoreState s = fold (\<lambda>c out. PutStateColumn (s ! c) c out) [0..<4] (replicate 16 0)"

text \<open>
  Modelled from the spec: round 0 of either direction, section 4.4:
  \<open>s[c] \<leftarrow> AddRoundKey(s[c], W[4r+c])\<close> for \<open>c\<close> in 0..3, with \<open>r = 0\<close> in \<^verbatim>\<open>Encrypt\<close>
  and \<open>r = Nr\<close> in \<^verbatim>\<open>Decrypt\<close>.
\<close>

definition AddRoundKeys :: "u32 list \<Rightarrow> nat \<Rightarrow> u32 list \<Rightarrow> u32 list" where
  "AddRoundKeys W r s = map (\<lambda>c. AddRoundKey (s ! c) (W ! (4 * r + c))) [0..<4]"

text \<open>
  Modelled from the spec: a middle round of \<^verbatim>\<open>Encrypt\<close>, section 4.4:
  \<open>t[c] \<leftarrow> MixColShiftRow(c, s) XOR W[4r+c]\<close>; \<open>s \<leftarrow> t\<close>.
\<close>

definition EncryptRound :: "tables \<Rightarrow> u32 list \<Rightarrow> nat \<Rightarrow> u32 list \<Rightarrow> u32 list" where
  "EncryptRound T W r s = map (\<lambda>c. MixColShiftRow T c s XOR W ! (4 * r + c)) [0..<4]"

text \<open>
  Modelled from the spec: the final round of \<^verbatim>\<open>Encrypt\<close>, section 4.4:
  \<open>t[c] \<leftarrow> SubBytesShiftRows(c, s) XOR W[4Nr+c]\<close>; \<open>s \<leftarrow> t\<close>.
\<close>

definition EncryptFinalRound :: "tables \<Rightarrow> u32 list \<Rightarrow> nat \<Rightarrow> u32 list \<Rightarrow> u32 list" where
  "EncryptFinalRound T W nr s =
     map (\<lambda>c. SubBytesShiftRows T c s XOR W ! (4 * nr + c)) [0..<4]"

text \<open>
  Modelled from the spec: a middle round of \<^verbatim>\<open>Decrypt\<close>, section 4.4:
  \<open>t[c] \<leftarrow> InvMixColShiftRow(c, s) XOR W'[4r+c]\<close>; \<open>s \<leftarrow> t\<close>.
\<close>

definition DecryptRound :: "tables \<Rightarrow> u32 list \<Rightarrow> nat \<Rightarrow> u32 list \<Rightarrow> u32 list" where
  "DecryptRound T W' r s = map (\<lambda>c. InvMixColShiftRow T c s XOR W' ! (4 * r + c)) [0..<4]"

text \<open>
  Modelled from the spec: the final round of \<^verbatim>\<open>Decrypt\<close>, section 4.4:
  \<open>t[c] \<leftarrow> InvSubBytesShiftRows(c, s) XOR W'[c]\<close>; \<open>s \<leftarrow> t\<close>.
\<close>

definition DecryptFinalRound :: "tables \<Rightarrow> u32 list \<Rightarrow> u32 list \<Rightarrow> u32 list" where
  "DecryptFinalRound T W' s = map (\<lambda>c. InvSubBytesShiftRows T c s XOR W' ! c) [0..<4]"

text \<open>
  Modelled from the spec: \<^verbatim>\<open>Encrypt\<close>, section 4.4: load the state, round 0 with
  \<open>W[0..4)\<close>, the rounds \<open>r = 1 .. Nr-1\<close> in increasing order, the final round, store.
\<close>

definition Encrypt :: "tables \<Rightarrow> engine \<Rightarrow> u8 list \<Rightarrow> u8 list" where
  "Encrypt T e block_in =
     (let W = schedule e; nr = Nr (variant e);
          s = AddRoundKeys W 0 (LoadState block_in);
          s = fold (EncryptRound T W) [1..<nr] s;
          s = EncryptFinalRound T W nr s
      in StoreState s)"

text \<open>
  Modelled from the spec: \<^verbatim>\<open>Decrypt\<close>, section 4.4: load the state, round 0 with
  \<open>W'[4Nr..4Nr+4)\<close>, the rounds \<open>r = Nr-1\<close> down to 1, the final round with \<open>W'[0..4)\<close>,
  store.
\<close>

definition Decrypt :: "tables \<Rightarrow> engine \<Rightarrow> u8 list \<Rightarrow> u8 list" where
  "Decrypt T e block_in =
     (let W' = inverse_schedule e; nr = Nr (variant e);
          s = AddRoundKeys W' nr (LoadState block_in);
          s = fold (DecryptRound T W') (rev [1..<nr]) s;
          s = DecryptFinalRound T W' s
      in StoreState s)"

text \<open>
  The state after SubBytes and ShiftRows, and after InvShiftRows and InvSubBytes: the
  four columns that \<^verbatim>\<open>SubBytesShiftRows\<close>, respectively \<^verbatim>\<open>InvSubBytesShiftRows\<close>,
  compute from a state.
\<close>

abbreviation SubShift :: "tables \<Rightarrow> u32 list \<Rightarrow> u32 list" where
  "SubShift T s \<equiv> map (\<lambda>k. SubBytesShiftRows T k s) [0..<4]"

abbreviation InvSubShift :: "tables \<Rightarrow> u32 list \<Rightarrow> u32 list" where
  "InvSubShift T s \<equiv> map (\<lambda>k. InvSubBytesShiftRows T k s) [0..<4]"

section \<open>Words and their bytes\<close>

lemma mask8: "(0xff :: u32) = mask 8"
  by (simp add: mask_eq_exp_minus_1)

lemma ucast_drop: "(ucast (drop_bit n (w :: u32)) :: u8) = of_nat (unat w div 2 ^ n mod 256)"
proof -
  have "unat (ucast (drop_bit n w) :: u8) = unat (of_nat (unat w div 2 ^ n mod 256) :: u8)"
    apply (simp only: unsigned_ucast_eq unat_drop_bit_eq)
    apply (simp add: drop_bit_eq_div take_bit_eq_mod unat_of_nat)
    done
  then show ?thesis
    by (simp only: word_unat_eq_iff)
qed

lemma idx_mask: "(ucast (x AND 0xff :: u32) :: u8) = ucast x"
  unfolding mask8
  by (rule bit_word_eqI) (auto simp add: bit_simps)

text \<open>The index expressions of the source select the bytes of the word.\<close>

lemma idx3: "ucast (drop_bit 24 w AND 0xff) = byte3 w"
  by (simp only: idx_mask ucast_drop byte3_def)

lemma idx2: "ucast (drop_bit 16 w AND 0xff) = byte2 w"
  by (simp only: idx_mask ucast_drop byte2_def)

lemma idx1: "ucast (drop_bit 8 w AND 0xff) = byte1 w"
  by (simp only: idx_mask ucast_drop byte1_def)

lemma idx0: "ucast (w AND 0xff) = byte0 w"
  using ucast_drop [of 0 w]
  by (simp add: idx_mask byte0_def)

lemma byte0_drop24: "byte0 (drop_bit 24 w) = byte3 w"
  by (simp only: idx0 [symmetric] idx3)

lemma byte0_drop16: "byte0 (drop_bit 16 w) = byte2 w"
  by (simp only: idx0 [symmetric] idx2)

lemma byte0_drop8: "byte0 (drop_bit 8 w) = byte1 w"
  by (simp only: idx0 [symmetric] idx1)

lemmas idx = idx0 byte0_drop24 byte0_drop16 byte0_drop8

lemma byte3_drop: "byte3 w = ucast (drop_bit 24 w)"
  by (simp only: ucast_drop byte3_def)

lemma byte2_drop: "byte2 w = ucast (drop_bit 16 w)"
  by (simp only: ucast_drop byte2_def)

lemma byte1_drop: "byte1 w = ucast (drop_bit 8 w)"
  by (simp only: ucast_drop byte1_def)

lemma byte0_drop: "byte0 w = ucast w"
  using ucast_drop [of 0 w]
  by (simp add: byte0_def)

lemmas byte_drop = byte3_drop byte2_drop byte1_drop byte0_drop

lemma byte3_mkword: "byte3 (mkword a b c d) = a"
  unfolding byte_drop
  by (rule bit_word_eqI) (auto simp add: mkword_def bit_simps dest: bit_imp_le_length)

lemma byte2_mkword: "byte2 (mkword a b c d) = b"
  unfolding byte_drop
  by (rule bit_word_eqI) (auto simp add: mkword_def bit_simps dest: bit_imp_le_length)

lemma byte1_mkword: "byte1 (mkword a b c d) = c"
  unfolding byte_drop
  by (rule bit_word_eqI) (auto simp add: mkword_def bit_simps dest: bit_imp_le_length)

lemma byte0_mkword: "byte0 (mkword a b c d) = d"
  unfolding byte_drop
  by (rule bit_word_eqI) (auto simp add: mkword_def bit_simps dest: bit_imp_le_length)

lemmas byte_mkword = byte3_mkword byte2_mkword byte1_mkword byte0_mkword

lemma mkword_bytes: "mkword (byte3 w) (byte2 w) (byte1 w) (byte0 w) = w"
  unfolding byte_drop
proof (rule bit_word_eqI)
  fix n
  assume "n < LENGTH(32)"
  then show "bit (mkword (ucast (drop_bit 24 w)) (ucast (drop_bit 16 w))
      (ucast (drop_bit 8 w)) (ucast w)) n = bit w n"
    by (cases "n < 8"; cases "n < 16"; cases "n < 24") (auto simp add: mkword_def bit_simps)
qed

lemma word_eq_bytes:
  assumes "byte3 x = byte3 y" "byte2 x = byte2 y" "byte1 x = byte1 y" "byte0 x = byte0 y"
  shows "x = y"
proof -
  have "x = mkword (byte3 x) (byte2 x) (byte1 x) (byte0 x)"
    by (simp only: mkword_bytes)
  also have "\<dots> = mkword (byte3 y) (byte2 y) (byte1 y) (byte0 y)"
    by (simp only: assms)
  also have "\<dots> = y"
    by (simp only: mkword_bytes)
  finally show ?thesis .
qed

lemma byte3_xor: "byte3 (a XOR b) = byte3 a XOR byte3 b"
  unfolding byte_drop
  by (rule bit_word_eqI) (auto simp add: bit_simps)

lemma byte2_xor: "byte2 (a XOR b) = byte2 a XOR byte2 b"
  unfolding byte_drop
  by (rule bit_word_eqI) (auto simp add: bit_simps)

lemma byte1_xor: "byte1 (a XOR b) = byte1 a XOR byte1 b"
  unfolding byte_drop
  by (rule bit_word_eqI) (auto simp add: bit_simps)

lemma byte0_xor: "byte0 (a XOR b) = byte0 a XOR byte0 b"
  unfolding byte_drop
  by (rule bit_word_eqI) (auto simp add: bit_simps)

lemmas byte_xor = byte3_xor byte2_xor byte1_xor byte0_xor

lemma mkword_xor:
  "mkword a b c d XOR mkword a' b' c' d' = mkword (a XOR a') (b XOR b') (c XOR c') (d XOR d')"
  by (rule word_eq_bytes) (simp_all add: byte_xor byte_mkword)

lemma xor_cancel_right: "(a XOR k) XOR k = a" for a :: u32
  by (simp add: xor.assoc)

lemmas xor_ac = xor.assoc xor.commute xor.left_commute

text \<open>The value of a word built from four bytes, in arithmetic.\<close>

lemma mkword_plus:
  "mkword a b c d =
     push_bit 24 (ucast a) + push_bit 16 (ucast b) + push_bit 8 (ucast c) + ucast d"
proof -
  have 1: "push_bit 8 (ucast c :: u32) OR ucast d = push_bit 8 (ucast c) + ucast d"
    by (rule disjunctive_add_eq_or [symmetric], rule bit_word_eqI)
      (auto simp add: bit_simps dest: bit_imp_le_length)
  have 2: "push_bit 16 (ucast b :: u32) OR (push_bit 8 (ucast c) OR ucast d) =
      push_bit 16 (ucast b) + (push_bit 8 (ucast c) OR ucast d)"
    by (rule disjunctive_add_eq_or [symmetric], rule bit_word_eqI)
      (auto simp add: bit_simps dest: bit_imp_le_length)
  have 3: "push_bit 24 (ucast a :: u32) OR
        (push_bit 16 (ucast b) OR (push_bit 8 (ucast c) OR ucast d)) =
      push_bit 24 (ucast a) + (push_bit 16 (ucast b) OR (push_bit 8 (ucast c) OR ucast d))"
    by (rule disjunctive_add_eq_or [symmetric], rule bit_word_eqI)
      (auto simp add: bit_simps dest: bit_imp_le_length)
  show ?thesis
    unfolding mkword_def
    apply (subst 3)
    apply (subst 2)
    apply (subst 1)
    apply (simp only: add.assoc)
    done
qed

lemma unat_u8_less: "unat (b :: u8) < 256"
  using unsigned_less [of b, where 'a = nat]
  by simp

lemma unat_mkword:
  "unat (mkword a b c d) = unat a * 2 ^ 24 + unat b * 2 ^ 16 + unat c * 2 ^ 8 + unat d"
proof -
  define N where "N = unat a * 2 ^ 24 + unat b * 2 ^ 16 + unat c * 2 ^ 8 + unat d"
  have e: "mkword a b c d = word_of_nat N"
    unfolding mkword_plus N_def
    by (simp add: push_bit_eq_mult)
  have "N < 2 ^ 32"
    unfolding N_def
    using unat_u8_less [of a] unat_u8_less [of b] unat_u8_less [of c] unat_u8_less [of d]
    by simp
  then have "unat (word_of_nat N :: u32) = N"
    by (simp add: unat_of_nat take_bit_eq_mod)
  then show ?thesis
    unfolding e N_def .
qed

lemma rotl_idx: "n < 32 \<Longrightarrow> (n + 24) mod 32 = (if n < 8 then n + 24 else n - 8)" for n :: nat
  by (simp add: mod_if)

lemma rotr_idx: "n < 32 \<Longrightarrow> (n + 8) mod 32 = (if n < 24 then n + 8 else n - 24)" for n :: nat
  by (simp add: mod_if)

lemma RotWord_rotl: "RotWord w = word_rotl 8 w"
proof -
  have m: "(0xffffffff :: u32) = - 1"
    by simp
  show ?thesis
    unfolding RotWord_def RotateLeft_def m
    by (rule bit_word_eqI)
      (auto simp add: bit_simps bit_word_rotl_iff rotl_idx add.commute dest: bit_imp_le_length)
qed

lemma rotr8_mkword: "word_rotr 8 (mkword a b c d) = mkword d a b c"
  by (rule bit_word_eqI)
    (auto simp add: mkword_def bit_simps rotr_idx add.commute dest: bit_imp_le_length)

lemma rotr16_mkword: "word_rotr 16 (mkword a b c d) = mkword c d a b"
  using word_rotr_word_rotr_eq [of 8 8 "mkword a b c d"]
  by (simp add: rotr8_mkword)

lemma rotr24_mkword: "word_rotr 24 (mkword a b c d) = mkword b c d a"
  using word_rotr_word_rotr_eq [of 8 16 "mkword a b c d"]
  by (simp add: rotr8_mkword rotr16_mkword)

section \<open>The utilities in terms of bytes\<close>

lemma col_cases: "c < 4 \<Longrightarrow> c = 0 \<or> c = 1 \<or> c = 2 \<or> c = (3::nat)"
  by arith

lemma upt4: "[0..<4] = [0, 1, 2, 3]"
  by (simp add: upt_rec)

lemma len4: "length s = 4 \<Longrightarrow> \<exists>a b c d. s = [a, b, c, d]"
  by (auto simp add: numeral_eq_Suc length_Suc_conv)

lemma len16:
  "length (P :: u8 list) = 16 \<Longrightarrow>
     \<exists>p0 p1 p2 p3 p4 p5 p6 p7 p8 p9 p10 p11 p12 p13 p14 p15.
       P = [p0, p1, p2, p3, p4, p5, p6, p7, p8, p9, p10, p11, p12, p13, p14, p15]"
  by (auto simp add: numeral_eq_Suc length_Suc_conv)

lemma replicate16: "replicate 16 x = [x, x, x, x, x, x, x, x, x, x, x, x, x, x, x, x]"
  by (simp add: numeral_eq_Suc)

lemma map4_cong: "(\<And>c. c < 4 \<Longrightarrow> f c = g c) \<Longrightarrow> map f [0..<4] = map g [0..<4]"
  by simp

lemma Get_mkword:
  "GetWordFromBuffer buffer c =
     mkword (buffer ! (4 * c)) (buffer ! (4 * c + 1)) (buffer ! (4 * c + 2))
       (buffer ! (4 * c + 3))"
  by (simp add: GetWordFromBuffer_def mkword_def)

lemma Put_bytes:
  "PutStateColumn w c out =
     out[4 * c := byte3 w, 4 * c + 1 := byte2 w, 4 * c + 2 := byte1 w, 4 * c + 3 := byte0 w]"
  by (simp add: PutStateColumn_def idx)

lemma SBSR_mkword:
  "SubBytesShiftRows T c s =
     mkword (Sbox T (byte3 (s ! ((0 + c) mod 4)))) (Sbox T (byte2 (s ! ((1 + c) mod 4))))
       (Sbox T (byte1 (s ! ((2 + c) mod 4)))) (Sbox T (byte0 (s ! ((3 + c) mod 4))))"
  by (simp add: SubBytesShiftRows_def mkword_def idx)

lemma ISBSR_mkword:
  "InvSubBytesShiftRows T c s =
     mkword (InverseSbox T (byte3 (s ! ((0 + c) mod 4))))
       (InverseSbox T (byte2 (s ! ((3 + c) mod 4))))
       (InverseSbox T (byte1 (s ! ((2 + c) mod 4))))
       (InverseSbox T (byte0 (s ! ((1 + c) mod 4))))"
  by (simp add: InvSubBytesShiftRows_def mkword_def idx)

lemma InvSubBytesShiftRows_SubShift:
  assumes inv: "\<forall>b. InverseSbox T (Sbox T b) = b"
    and "length s = 4" and "c < 4"
  shows "InvSubBytesShiftRows T c (SubShift T s) = s ! c"
proof -
  obtain a b c' d where s: "s = [a, b, c', d]"
    using len4 [OF \<open>length s = 4\<close>] by blast
  show ?thesis
    using col_cases [OF \<open>c < 4\<close>]
    by (auto simp add: ISBSR_mkword upt4 SBSR_mkword byte_mkword inv mkword_bytes s)
qed

lemma SubBytesShiftRows_InvSubShift:
  assumes inv: "\<forall>b. Sbox T (InverseSbox T b) = b"
    and "length s = 4" and "c < 4"
  shows "SubBytesShiftRows T c (InvSubShift T s) = s ! c"
proof -
  obtain a b c' d where s: "s = [a, b, c', d]"
    using len4 [OF \<open>length s = 4\<close>] by blast
  show ?thesis
    using col_cases [OF \<open>c < 4\<close>]
    by (auto simp add: ISBSR_mkword upt4 SBSR_mkword byte_mkword inv mkword_bytes s)
qed

section \<open>MixColumns and InvMixColumns\<close>

lemma mul2: "gf_mul 2 x = xtime x"
  by (simp add: gf_mul_def)

lemma mul3: "gf_mul 3 x = xtime x XOR x"
  by (simp add: gf_mul_def xor.commute)

lemma mul9: "gf_mul 9 x = xtime (xtime (xtime x)) XOR x"
  by (simp add: gf_mul_def numeral_eq_Suc xor_ac)

lemma mulb: "gf_mul 0xb x = xtime (xtime (xtime x)) XOR xtime x XOR x"
  by (simp add: gf_mul_def numeral_eq_Suc xor_ac)

lemma muld: "gf_mul 0xd x = xtime (xtime (xtime x)) XOR xtime (xtime x) XOR x"
  by (simp add: gf_mul_def numeral_eq_Suc xor_ac)

lemma mule: "gf_mul 0xe x = xtime (xtime (xtime x)) XOR xtime (xtime x) XOR xtime x"
  by (simp add: gf_mul_def numeral_eq_Suc xor_ac)

lemmas gf_consts = mul2 mul3 mul9 mulb muld mule

lemma xtime_xor: "xtime (a XOR b) = xtime a XOR xtime b"
  by (simp add: xtime_def bit_xor_iff push_bit_xor xor_ac)

text \<open>
  Both maps are linear over XOR, and the two matrices are inverse to each other: every
  entry of their product is a polynomial of degree at most 4 in \<open>x\<close>, so the products
  cancel term by term, without reduction modulo 0x11B.
\<close>

lemma MixColumn_xor: "MixColumn (a XOR b) = MixColumn a XOR MixColumn b"
  by (simp add: MixColumn_def Let_def mkword_xor byte_xor gf_consts xtime_xor xor_ac)

lemma InvMixColumn_xor: "InvMixColumn (a XOR b) = InvMixColumn a XOR InvMixColumn b"
  by (simp add: InvMixColumn_def Let_def mkword_xor byte_xor gf_consts xtime_xor xor_ac)

lemma InvMixColumn_MixColumn: "InvMixColumn (MixColumn w) = w"
  by (rule word_eq_bytes)
    (simp_all add: InvMixColumn_def MixColumn_def Let_def byte_mkword gf_consts xtime_xor
      xor_ac)

lemma MixColumn_InvMixColumn: "MixColumn (InvMixColumn w) = w"
  by (rule word_eq_bytes)
    (simp_all add: InvMixColumn_def MixColumn_def Let_def byte_mkword gf_consts xtime_xor
      xor_ac)

section \<open>The tables\<close>

lemma length_Sbox_table: "length Sbox_table = 256"
  by (simp add: Sbox_table_def)

lemma length_InverseSbox_table: "length InverseSbox_table = 256"
  by (simp add: InverseSbox_table_def)

lemma InverseSbox_Sbox_table:
  "map (\<lambda>x. unat (InverseSbox_table ! unat x)) Sbox_table = [0..<256]"
  by (simp add: Sbox_table_def InverseSbox_table_def upt_rec [of 0 256]
      upt_rec [of "Suc 0" 256] numeral_2_eq_2 [symmetric])

lemma Sbox_InverseSbox_table:
  "map (\<lambda>x. unat (Sbox_table ! unat x)) InverseSbox_table = [0..<256]"
  by (simp add: Sbox_table_def InverseSbox_table_def upt_rec [of 0 256]
      upt_rec [of "Suc 0" 256] numeral_2_eq_2 [symmetric])

lemma aes_Sbox: "Sbox aes_tables b = Sbox_table ! unat b"
  by (simp add: aes_tables_def Let_def)

lemma aes_InverseSbox: "InverseSbox aes_tables b = InverseSbox_table ! unat b"
  by (simp add: aes_tables_def Let_def)

lemma aes_InverseSbox_Sbox: "InverseSbox aes_tables (Sbox aes_tables b) = b"
proof -
  have "map (\<lambda>x. unat (InverseSbox_table ! unat x)) Sbox_table ! unat b = [0..<256] ! unat b"
    by (simp only: InverseSbox_Sbox_table)
  then have "unat (InverseSbox_table ! unat (Sbox_table ! unat b)) = unat b"
    using unat_u8_less [of b] by (simp add: length_Sbox_table)
  then show ?thesis
    by (simp only: aes_Sbox aes_InverseSbox word_unat_eq_iff)
qed

lemma aes_Sbox_InverseSbox: "Sbox aes_tables (InverseSbox aes_tables b) = b"
proof -
  have "map (\<lambda>x. unat (Sbox_table ! unat x)) InverseSbox_table ! unat b = [0..<256] ! unat b"
    by (simp only: Sbox_InverseSbox_table)
  then have "unat (Sbox_table ! unat (InverseSbox_table ! unat b)) = unat b"
    using unat_u8_less [of b] by (simp add: length_InverseSbox_table)
  then show ?thesis
    by (simp only: aes_Sbox aes_InverseSbox word_unat_eq_iff)
qed

lemma aes_Enc:
  "Enc0 aes_tables b = mkword (gf_mul 2 (Sbox aes_tables b)) (Sbox aes_tables b) (Sbox aes_tables b) (gf_mul 3 (Sbox aes_tables b))"
  "Enc1 aes_tables b = mkword (gf_mul 3 (Sbox aes_tables b)) (gf_mul 2 (Sbox aes_tables b)) (Sbox aes_tables b) (Sbox aes_tables b)"
  "Enc2 aes_tables b = mkword (Sbox aes_tables b) (gf_mul 3 (Sbox aes_tables b)) (gf_mul 2 (Sbox aes_tables b)) (Sbox aes_tables b)"
  "Enc3 aes_tables b = mkword (Sbox aes_tables b) (Sbox aes_tables b) (gf_mul 3 (Sbox aes_tables b)) (gf_mul 2 (Sbox aes_tables b))"
  by (simp_all add: aes_tables_def Let_def rotr8_mkword rotr16_mkword rotr24_mkword)

lemma aes_Dec:
  "Dec0 aes_tables b = mkword (gf_mul 0x0e (InverseSbox aes_tables b)) (gf_mul 0x09 (InverseSbox aes_tables b)) (gf_mul 0x0d (InverseSbox aes_tables b)) (gf_mul 0x0b (InverseSbox aes_tables b))"
  "Dec1 aes_tables b = mkword (gf_mul 0x0b (InverseSbox aes_tables b)) (gf_mul 0x0e (InverseSbox aes_tables b)) (gf_mul 0x09 (InverseSbox aes_tables b)) (gf_mul 0x0d (InverseSbox aes_tables b))"
  "Dec2 aes_tables b = mkword (gf_mul 0x0d (InverseSbox aes_tables b)) (gf_mul 0x0b (InverseSbox aes_tables b)) (gf_mul 0x0e (InverseSbox aes_tables b)) (gf_mul 0x09 (InverseSbox aes_tables b))"
  "Dec3 aes_tables b = mkword (gf_mul 0x09 (InverseSbox aes_tables b)) (gf_mul 0x0d (InverseSbox aes_tables b)) (gf_mul 0x0b (InverseSbox aes_tables b)) (gf_mul 0x0e (InverseSbox aes_tables b))"
  by (simp_all add: aes_tables_def Let_def rotr8_mkword rotr16_mkword rotr24_mkword)

lemma MixColShiftRow_aes:
  "MixColShiftRow aes_tables c s = MixColumn (SubBytesShiftRows aes_tables c s)"
  by (simp add: MixColShiftRow_def idx aes_Enc SBSR_mkword MixColumn_def Let_def byte_mkword
      mkword_xor xor_ac)

lemma InvMixColShiftRow_aes:
  "InvMixColShiftRow aes_tables c s = InvMixColumn (InvSubBytesShiftRows aes_tables c s)"
  by (simp add: InvMixColShiftRow_def idx aes_Dec ISBSR_mkword InvMixColumn_def Let_def
      byte_mkword mkword_xor xor_ac)

lemma FastInvMixColumn_aes: "FastInvMixColumn aes_tables w = InvMixColumn w"
  by (simp add: FastInvMixColumn_def idx aes_Dec aes_InverseSbox_Sbox InvMixColumn_def Let_def
      mkword_xor xor_ac)


section \<open>The rounds\<close>

lemma length_EncryptRound: "length (EncryptRound T W r s) = 4"
  by (simp add: EncryptRound_def)
lemma length_DecryptRound: "length (DecryptRound T W r s) = 4"
  by (simp add: DecryptRound_def)

lemma nth_EncryptRound: "c < 4 \<Longrightarrow> EncryptRound T W r s ! c = MixColShiftRow T c s XOR W ! (4 * r + c)"
  by (simp add: EncryptRound_def)
lemma nth_DecryptRound: "c < 4 \<Longrightarrow> DecryptRound T W r s ! c = InvMixColShiftRow T c s XOR W ! (4 * r + c)"
  by (simp add: DecryptRound_def)

lemma DecryptRound_EncryptRound:
  assumes "length s = 4"
    and W': "\<And>c. c < 4 \<Longrightarrow> W' ! (4 * r + c) = InvMixColumn (W ! (4 * r + c))"
  shows "DecryptRound aes_tables W' r (SubShift aes_tables (EncryptRound aes_tables W r s)) = SubShift aes_tables s"
  unfolding DecryptRound_def
proof (rule map4_cong)
  fix c :: nat assume c: "c < 4"
  have "InvSubBytesShiftRows aes_tables c (SubShift aes_tables (EncryptRound aes_tables W r s)) = EncryptRound aes_tables W r s ! c"
    using c by (intro InvSubBytesShiftRows_SubShift) (simp_all add: aes_InverseSbox_Sbox length_EncryptRound)
  then show "InvMixColShiftRow aes_tables c (SubShift aes_tables (EncryptRound aes_tables W r s)) XOR W' ! (4 * r + c)
      = SubBytesShiftRows aes_tables c s"
    using c by (simp add: InvMixColShiftRow_aes nth_EncryptRound MixColShiftRow_aes W'
        InvMixColumn_xor InvMixColumn_MixColumn xor_cancel_right)
qed

lemma EncryptRound_DecryptRound:
  assumes "length s = 4"
    and W': "\<And>c. c < 4 \<Longrightarrow> W' ! (4 * r + c) = InvMixColumn (W ! (4 * r + c))"
  shows "EncryptRound aes_tables W r (InvSubShift aes_tables (DecryptRound aes_tables W' r s)) = InvSubShift aes_tables s"
  unfolding EncryptRound_def
proof (rule map4_cong)
  fix c :: nat assume c: "c < 4"
  have "SubBytesShiftRows aes_tables c (InvSubShift aes_tables (DecryptRound aes_tables W' r s)) = DecryptRound aes_tables W' r s ! c"
    using c by (intro SubBytesShiftRows_InvSubShift) (simp_all add: aes_Sbox_InverseSbox length_DecryptRound)
  then show "MixColShiftRow aes_tables c (InvSubShift aes_tables (DecryptRound aes_tables W' r s)) XOR W ! (4 * r + c)
      = InvSubBytesShiftRows aes_tables c s"
    using c by (simp add: InvMixColShiftRow_aes nth_DecryptRound MixColShiftRow_aes W'
        MixColumn_xor MixColumn_InvMixColumn xor_cancel_right)
qed

lemma length_fold_EncryptRound: "length s = 4 \<Longrightarrow> length (fold (EncryptRound T W) rs s) = 4"
  by (induction rs arbitrary: s) (simp_all add: length_EncryptRound)

lemma length_fold_DecryptRound: "length s = 4 \<Longrightarrow> length (fold (DecryptRound T W) rs s) = 4"
  by (induction rs arbitrary: s) (simp_all add: length_DecryptRound)

lemma decrypt_rounds_encrypt_rounds:
  assumes "length s = 4"
    and "\<And>r c. r \<in> set rs \<Longrightarrow> c < 4 \<Longrightarrow> W' ! (4 * r + c) = InvMixColumn (W ! (4 * r + c))"
  shows "fold (DecryptRound aes_tables W') (rev rs)
           (SubShift aes_tables (fold (EncryptRound aes_tables W) rs s)) = SubShift aes_tables s"
  using assms(2)
proof (induction rs rule: rev_induct)
  case Nil
  show ?case by simp
next
  case (snoc r rs)
  have len: "length (fold (EncryptRound aes_tables W) rs s) = 4"
    using assms(1) by (rule length_fold_EncryptRound)
  have "DecryptRound aes_tables W' r (SubShift aes_tables (EncryptRound aes_tables W r (fold (EncryptRound aes_tables W) rs s)))
      = SubShift aes_tables (fold (EncryptRound aes_tables W) rs s)"
    using len by (rule DecryptRound_EncryptRound) (simp add: snoc.prems)
  then show ?case
    using snoc.IH snoc.prems by simp
qed

lemma encrypt_rounds_decrypt_rounds:
  assumes "length s = 4"
    and "\<And>r c. r \<in> set rs \<Longrightarrow> c < 4 \<Longrightarrow> W' ! (4 * r + c) = InvMixColumn (W ! (4 * r + c))"
  shows "fold (EncryptRound aes_tables W) rs
           (InvSubShift aes_tables (fold (DecryptRound aes_tables W') (rev rs) s)) = InvSubShift aes_tables s"
  using assms(2)
proof (induction rs)
  case Nil
  show ?case by simp
next
  case (Cons r rs)
  have len: "length (fold (DecryptRound aes_tables W') (rev rs) s) = 4"
    using assms(1) by (rule length_fold_DecryptRound)
  have "EncryptRound aes_tables W r (InvSubShift aes_tables (DecryptRound aes_tables W' r (fold (DecryptRound aes_tables W') (rev rs) s)))
      = InvSubShift aes_tables (fold (DecryptRound aes_tables W') (rev rs) s)"
    using len by (rule EncryptRound_DecryptRound) (simp add: Cons.prems)
  then show ?case
    using Cons.IH Cons.prems by simp
qed


section \<open>Blocks, schedules and the two directions\<close>

lemma length_StoreState: "length (StoreState s) = 16"
  by (simp add: StoreState_def upt4 Put_bytes)

lemma length_LoadState: "length (LoadState P) = 4"
  by (simp add: LoadState_def)

lemma LoadState_StoreState:
  assumes "length s = 4"
  shows "LoadState (StoreState s) = s"
proof -
  obtain a b c d where s: "s = [a, b, c, d]" using len4 [OF assms] by blast
  show ?thesis
    by (simp add: s LoadState_def StoreState_def upt4 Put_bytes Get_mkword replicate16 mkword_bytes)
qed

lemma StoreState_LoadState:
  assumes "length P = 16"
  shows "StoreState (LoadState P) = P"
proof -
  obtain p0 p1 p2 p3 p4 p5 p6 p7 p8 p9 p10 p11 p12 p13 p14 p15 where
    P: "P = [p0, p1, p2, p3, p4, p5, p6, p7, p8, p9, p10, p11, p12, p13, p14, p15]"
    using len16 [OF assms] by blast
  show ?thesis
    by (simp add: P LoadState_def StoreState_def upt4 Put_bytes Get_mkword replicate16 byte_mkword)
qed

lemma length_fold_expand_word:
  "length (fold (expand_word T nk) xs W) = length W + length xs"
  by (induction xs arbitrary: W) (simp_all add: expand_word_def Let_def)

lemma length_ExpandKey: "length (ExpandKey T v key) = (Nr v + 1) * 4"
  unfolding ExpandKey_def length_fold_expand_word by (cases v) simp_all

lemma nth_InverseExpandKey:
  "i < length W \<Longrightarrow>
   InverseExpandKey T v W ! i =
     (if 4 \<le> i \<and> i < 4 * Nr v then FastInvMixColumn T (W ! i) else W ! i)"
  by (simp add: InverseExpandKey_def)

lemma AddRoundKeys_EncryptFinalRound:
  assumes "\<And>c. c < 4 \<Longrightarrow> W' ! (4 * nr + c) = W ! (4 * nr + c)"
  shows "AddRoundKeys W' nr (EncryptFinalRound T W nr s) = SubShift T s"
  unfolding AddRoundKeys_def
  by (rule map4_cong) (simp add: EncryptFinalRound_def AddRoundKey_def assms xor_cancel_right)

lemma DecryptFinalRound_SubShift:
  assumes "length s = 4" and "\<And>c. c < 4 \<Longrightarrow> W' ! c = W ! c"
  shows "DecryptFinalRound aes_tables W' (SubShift aes_tables (AddRoundKeys W 0 s)) = s"
proof -
  obtain a b c d where s: "s = [a, b, c, d]" using len4 [OF assms(1)] by blast
  have l: "length (AddRoundKeys W 0 s) = 4" by (simp add: AddRoundKeys_def)
  have "DecryptFinalRound aes_tables W' (SubShift aes_tables (AddRoundKeys W 0 s))
      = map (\<lambda>c. AddRoundKeys W 0 s ! c XOR W' ! c) [0..<4]"
    unfolding DecryptFinalRound_def
    by (rule map4_cong) (simp add: InvSubBytesShiftRows_SubShift [OF _ l] aes_InverseSbox_Sbox)
  also have "\<dots> = map (\<lambda>c. s ! c) [0..<4]"
    by (rule map4_cong) (simp add: AddRoundKeys_def AddRoundKey_def assms(2) xor_cancel_right)
  also have "\<dots> = s"
    by (simp add: upt4 s)
  finally show ?thesis .
qed

lemma AddRoundKeys_DecryptFinalRound:
  assumes "\<And>c. c < 4 \<Longrightarrow> W' ! c = W ! c"
  shows "AddRoundKeys W 0 (DecryptFinalRound T W' s) = InvSubShift T s"
  unfolding AddRoundKeys_def
  by (rule map4_cong) (simp add: DecryptFinalRound_def AddRoundKey_def assms xor_cancel_right)

lemma EncryptFinalRound_InvSubShift:
  assumes "length s = 4" and "\<And>c. c < 4 \<Longrightarrow> W' ! (4 * nr + c) = W ! (4 * nr + c)"
  shows "EncryptFinalRound aes_tables W nr (InvSubShift aes_tables (AddRoundKeys W' nr s)) = s"
proof -
  obtain a b c d where s: "s = [a, b, c, d]" using len4 [OF assms(1)] by blast
  have l: "length (AddRoundKeys W' nr s) = 4" by (simp add: AddRoundKeys_def)
  have "EncryptFinalRound aes_tables W nr (InvSubShift aes_tables (AddRoundKeys W' nr s))
      = map (\<lambda>c. AddRoundKeys W' nr s ! c XOR W ! (4 * nr + c)) [0..<4]"
    unfolding EncryptFinalRound_def
    by (rule map4_cong) (simp add: SubBytesShiftRows_InvSubShift [OF _ l] aes_Sbox_InverseSbox)
  also have "\<dots> = map (\<lambda>c. s ! c) [0..<4]"
    by (rule map4_cong) (simp add: AddRoundKeys_def AddRoundKey_def assms(2) xor_cancel_right)
  also have "\<dots> = s"
    by (simp add: upt4 s)
  finally show ?thesis .
qed

lemma roundtrip_schedules:
  assumes W: "length W = (nr + 1) * 4"
    and W': "W' = map (\<lambda>i. if 4 \<le> i \<and> i < 4 * nr then FastInvMixColumn aes_tables (W ! i) else W ! i) [0..<length W]"
    and nr: "1 \<le> nr"
  shows "\<And>c. c < 4 \<Longrightarrow> W' ! c = W ! c"
    and "\<And>c. c < 4 \<Longrightarrow> W' ! (4 * nr + c) = W ! (4 * nr + c)"
    and "\<And>r c. r \<in> set [1..<nr] \<Longrightarrow> c < 4 \<Longrightarrow> W' ! (4 * r + c) = InvMixColumn (W ! (4 * r + c))"
  using nr by (auto simp add: W W' FastInvMixColumn_aes)

lemma SetKey_Inr:
  assumes "length key = 16 \<or> length key = 24 \<or> length key = 32"
  shows "\<exists>v. SetKey T key =
           Inr \<lparr>variant = v, schedule = ExpandKey T v key,
                inverse_schedule = InverseExpandKey T v (ExpandKey T v key)\<rparr>"
  using assms by (simp add: SetKey_def Let_def)

lemma Nr_ge1: "1 \<le> Nr v"
  by (cases v) simp_all

lemma Decrypt_Encrypt_schedules:
  assumes W: "length (schedule e) = (Nr (variant e) + 1) * 4"
    and W': "inverse_schedule e = InverseExpandKey aes_tables (variant e) (schedule e)"
    and P: "length P = 16"
  shows "Decrypt aes_tables e (Encrypt aes_tables e P) = P"
proof -
  note sch = roundtrip_schedules [OF W W' [unfolded InverseExpandKey_def] Nr_ge1]
  let ?W = "schedule e" and ?W' = "inverse_schedule e" and ?nr = "Nr (variant e)"
  let ?s0 = "AddRoundKeys ?W 0 (LoadState P)"
  let ?e = "fold (EncryptRound aes_tables ?W) [1..<?nr] ?s0"
  have l0: "length ?s0 = 4" by (simp add: AddRoundKeys_def)
  have le: "length (EncryptFinalRound aes_tables ?W ?nr ?e) = 4"
    by (simp add: EncryptFinalRound_def)
  have "Decrypt aes_tables e (Encrypt aes_tables e P) =
      StoreState (DecryptFinalRound aes_tables ?W'
        (fold (DecryptRound aes_tables ?W') (rev [1..<?nr])
          (AddRoundKeys ?W' ?nr (EncryptFinalRound aes_tables ?W ?nr ?e))))"
    by (simp only: Decrypt_def Encrypt_def Let_def LoadState_StoreState [OF le])
  also have "\<dots> = StoreState (DecryptFinalRound aes_tables ?W'
        (fold (DecryptRound aes_tables ?W') (rev [1..<?nr]) (SubShift aes_tables ?e)))"
    by (simp only: AddRoundKeys_EncryptFinalRound [OF sch(2)])
  also have "\<dots> = StoreState (DecryptFinalRound aes_tables ?W' (SubShift aes_tables ?s0))"
    by (simp only: decrypt_rounds_encrypt_rounds [OF l0 sch(3)])
  also have "\<dots> = StoreState (LoadState P)"
    by (simp only: DecryptFinalRound_SubShift [OF length_LoadState sch(1)])
  also have "\<dots> = P"
    by (rule StoreState_LoadState [OF P])
  finally show ?thesis .
qed

lemma Encrypt_Decrypt_schedules:
  assumes W: "length (schedule e) = (Nr (variant e) + 1) * 4"
    and W': "inverse_schedule e = InverseExpandKey aes_tables (variant e) (schedule e)"
    and P: "length P = 16"
  shows "Encrypt aes_tables e (Decrypt aes_tables e P) = P"
proof -
  note sch = roundtrip_schedules [OF W W' [unfolded InverseExpandKey_def] Nr_ge1]
  let ?W = "schedule e" and ?W' = "inverse_schedule e" and ?nr = "Nr (variant e)"
  let ?s0 = "AddRoundKeys ?W' ?nr (LoadState P)"
  let ?d = "fold (DecryptRound aes_tables ?W') (rev [1..<?nr]) ?s0"
  have l0: "length ?s0 = 4" by (simp add: AddRoundKeys_def)
  have ld: "length (DecryptFinalRound aes_tables ?W' ?d) = 4"
    by (simp add: DecryptFinalRound_def)
  have "Encrypt aes_tables e (Decrypt aes_tables e P) =
      StoreState (EncryptFinalRound aes_tables ?W ?nr
        (fold (EncryptRound aes_tables ?W) [1..<?nr]
          (AddRoundKeys ?W 0 (DecryptFinalRound aes_tables ?W' ?d))))"
    by (simp only: Decrypt_def Encrypt_def Let_def LoadState_StoreState [OF ld])
  also have "\<dots> = StoreState (EncryptFinalRound aes_tables ?W ?nr
        (fold (EncryptRound aes_tables ?W) [1..<?nr] (InvSubShift aes_tables ?d)))"
    by (simp only: AddRoundKeys_DecryptFinalRound [OF sch(1)])
  also have "\<dots> = StoreState (EncryptFinalRound aes_tables ?W ?nr (InvSubShift aes_tables ?s0))"
    by (simp only: encrypt_rounds_decrypt_rounds [OF l0 sch(3)])
  also have "\<dots> = StoreState (LoadState P)"
    by (simp only: EncryptFinalRound_InvSubShift [OF length_LoadState sch(2)])
  also have "\<dots> = P"
    by (rule StoreState_LoadState [OF P])
  finally show ?thesis .
qed

section \<open>The FIPS 197 example vectors\<close>

text \<open>
  The engine with these tables reproduces the three vectors of FIPS 197, Appendix C, that
  section 8 of the specification prescribes: the keys \<open>000102..0f\<close>, \<open>000102..17\<close> and
  \<open>000102..1f\<close>, the plaintext \<open>00112233..ff\<close>.
\<close>

lemma upt_1_10: "[1..<10] = [1, 2, 3, 4, 5, 6, 7, 8, 9]"
  by (simp add: upt_rec [of "Suc 0"] numeral_2_eq_2 [symmetric])

lemma upt_1_12: "[1..<12] = [1, 2, 3, 4, 5, 6, 7, 8, 9, 10, 11]"
  by (simp add: upt_rec [of "Suc 0"] numeral_2_eq_2 [symmetric])

lemma upt_1_14: "[1..<14] = [1, 2, 3, 4, 5, 6, 7, 8, 9, 10, 11, 12, 13]"
  by (simp add: upt_rec [of "Suc 0"] numeral_2_eq_2 [symmetric])

lemma upt_0_6: "[0..<6] = [0, 1, 2, 3, 4, 5]"
  by (simp add: upt_rec [of 0] upt_rec [of "Suc 0"] numeral_2_eq_2 [symmetric])

lemma upt_0_8: "[0..<8] = [0, 1, 2, 3, 4, 5, 6, 7]"
  by (simp add: upt_rec [of 0] upt_rec [of "Suc 0"] numeral_2_eq_2 [symmetric])

text \<open>The rounds as explicit lists of four columns, for evaluation.\<close>

lemma EncryptRound_unfold:
  "EncryptRound T W r s =
     [MixColShiftRow T 0 s XOR W ! (4 * r), MixColShiftRow T 1 s XOR W ! (4 * r + 1),
      MixColShiftRow T 2 s XOR W ! (4 * r + 2), MixColShiftRow T 3 s XOR W ! (4 * r + 3)]"
  by (simp add: EncryptRound_def upt4)

lemma EncryptFinalRound_unfold:
  "EncryptFinalRound T W nr s =
     [SubBytesShiftRows T 0 s XOR W ! (4 * nr), SubBytesShiftRows T 1 s XOR W ! (4 * nr + 1),
      SubBytesShiftRows T 2 s XOR W ! (4 * nr + 2),
      SubBytesShiftRows T 3 s XOR W ! (4 * nr + 3)]"
  by (simp add: EncryptFinalRound_def upt4)

lemma DecryptRound_unfold:
  "DecryptRound T W r s =
     [InvMixColShiftRow T 0 s XOR W ! (4 * r), InvMixColShiftRow T 1 s XOR W ! (4 * r + 1),
      InvMixColShiftRow T 2 s XOR W ! (4 * r + 2),
      InvMixColShiftRow T 3 s XOR W ! (4 * r + 3)]"
  by (simp add: DecryptRound_def upt4)

lemma DecryptFinalRound_unfold:
  "DecryptFinalRound T W s =
     [InvSubBytesShiftRows T 0 s XOR W ! 0, InvSubBytesShiftRows T 1 s XOR W ! 1,
      InvSubBytesShiftRows T 2 s XOR W ! 2, InvSubBytesShiftRows T 3 s XOR W ! 3]"
  by (simp add: DecryptFinalRound_def upt4)

lemma funpow_numeral: "(f ^^ numeral k) x = f ((f ^^ pred_numeral k) x)"
  by (simp add: numeral_eq_Suc)

lemma ExpandKey_fips197_128:
  "ExpandKey aes_tables AES128
     [0x00, 0x01, 0x02, 0x03, 0x04, 0x05, 0x06, 0x07,
      0x08, 0x09, 0x0a, 0x0b, 0x0c, 0x0d, 0x0e, 0x0f] =
   [0x00010203, 0x04050607, 0x08090a0b, 0x0c0d0e0f, 0xd6aa74fd, 0xd2af72fa, 0xdaa678f1,
    0xd6ab76fe, 0xb692cf0b, 0x643dbdf1, 0xbe9bc500, 0x6830b3fe, 0xb6ff744e, 0xd2c2c9bf,
    0x6c590cbf, 0x0469bf41, 0x47f7f7bc, 0x95353e03, 0xf96c32bc, 0xfd058dfd, 0x3caaa3e8,
    0xa99f9deb, 0x50f3af57, 0xadf622aa, 0x5e390f7d, 0xf7a69296, 0xa7553dc1, 0x0aa31f6b,
    0x14f9701a, 0xe35fe28c, 0x440adf4d, 0x4ea9c026, 0x47438735, 0xa41c65b9, 0xe016baf4,
    0xaebf7ad2, 0x549932d1, 0xf0855768, 0x1093ed9c, 0xbe2c974e, 0x13111d7f, 0xe3944a17,
    0xf307a78b, 0x4d2b30c5]"
  by (simp add: ExpandKey_def expand_word_def Let_def upt4 GetWordFromBuffer_def SubBytes_def
      RotWord_def RotateLeft_def Rcon_def funpow_numeral aes_Sbox Sbox_table_def xtime_def)

lemma Encrypt_fips197_vector_128:
  assumes "variant e = AES128"
    and "schedule e = ExpandKey aes_tables AES128
      [0x00, 0x01, 0x02, 0x03, 0x04, 0x05, 0x06, 0x07,
       0x08, 0x09, 0x0a, 0x0b, 0x0c, 0x0d, 0x0e, 0x0f]"
  shows "Encrypt aes_tables e
      [0x00, 0x11, 0x22, 0x33, 0x44, 0x55, 0x66, 0x77,
       0x88, 0x99, 0xaa, 0xbb, 0xcc, 0xdd, 0xee, 0xff] =
     [0x69, 0xc4, 0xe0, 0xd8, 0x6a, 0x7b, 0x04, 0x30,
      0xd8, 0xcd, 0xb7, 0x80, 0x70, 0xb4, 0xc5, 0x5a]"
  unfolding Encrypt_def Let_def assms ExpandKey_fips197_128 Nr.simps upt_1_10
  by (simp add: LoadState_def StoreState_def AddRoundKeys_def AddRoundKey_def
      EncryptRound_unfold EncryptFinalRound_unfold upt4 GetWordFromBuffer_def PutStateColumn_def
      MixColShiftRow_def SubBytesShiftRows_def replicate16 aes_Sbox aes_Enc Sbox_table_def
      gf_consts xtime_def mkword_def)

lemma fips197_vector_128:
  "\<exists>e. SetKey aes_tables
        [0x00, 0x01, 0x02, 0x03, 0x04, 0x05, 0x06, 0x07,
         0x08, 0x09, 0x0a, 0x0b, 0x0c, 0x0d, 0x0e, 0x0f] = Inr e \<and>
      Encrypt aes_tables e
        [0x00, 0x11, 0x22, 0x33, 0x44, 0x55, 0x66, 0x77,
         0x88, 0x99, 0xaa, 0xbb, 0xcc, 0xdd, 0xee, 0xff] =
         [0x69, 0xc4, 0xe0, 0xd8, 0x6a, 0x7b, 0x04, 0x30,
          0xd8, 0xcd, 0xb7, 0x80, 0x70, 0xb4, 0xc5, 0x5a]"
  by (simp add: SetKey_def Let_def Encrypt_fips197_vector_128)

lemma ExpandKey_fips197_192:
  "ExpandKey aes_tables AES192
     [0x00, 0x01, 0x02, 0x03, 0x04, 0x05, 0x06, 0x07,
      0x08, 0x09, 0x0a, 0x0b, 0x0c, 0x0d, 0x0e, 0x0f,
      0x10, 0x11, 0x12, 0x13, 0x14, 0x15, 0x16, 0x17] =
   [0x00010203, 0x04050607, 0x08090a0b, 0x0c0d0e0f, 0x10111213, 0x14151617, 0x5846f2f9,
    0x5c43f4fe, 0x544afef5, 0x5847f0fa, 0x4856e2e9, 0x5c43f4fe, 0x40f949b3, 0x1cbabd4d,
    0x48f043b8, 0x10b7b342, 0x58e151ab, 0x04a2a555, 0x7effb541, 0x6245080c, 0x2ab54bb4,
    0x3a02f8f6, 0x62e3a95d, 0x66410c08, 0xf5018572, 0x97448d7e, 0xbdf1c6ca, 0x87f33e3c,
    0xe5109761, 0x83519b69, 0x34157c9e, 0xa351f1e0, 0x1ea0372a, 0x99530916, 0x7c439e77,
    0xff12051e, 0xdd7e0e88, 0x7e2fff68, 0x608fc842, 0xf9dcc154, 0x859f5f23, 0x7a8d5a3d,
    0xc0c02952, 0xbeefd63a, 0xde601e78, 0x27bcdf2c, 0xa223800f, 0xd8aeda32, 0xa4970a33,
    0x1a78dc09, 0xc418c271, 0xe3a41d5d]"
  by (simp add: ExpandKey_def expand_word_def Let_def upt_0_6 GetWordFromBuffer_def SubBytes_def
      RotWord_def RotateLeft_def Rcon_def funpow_numeral aes_Sbox Sbox_table_def xtime_def)

lemma Encrypt_fips197_vector_192:
  assumes "variant e = AES192"
    and "schedule e = ExpandKey aes_tables AES192
      [0x00, 0x01, 0x02, 0x03, 0x04, 0x05, 0x06, 0x07,
      0x08, 0x09, 0x0a, 0x0b, 0x0c, 0x0d, 0x0e, 0x0f,
      0x10, 0x11, 0x12, 0x13, 0x14, 0x15, 0x16, 0x17]"
  shows "Encrypt aes_tables e
      [0x00, 0x11, 0x22, 0x33, 0x44, 0x55, 0x66, 0x77,
       0x88, 0x99, 0xaa, 0xbb, 0xcc, 0xdd, 0xee, 0xff] =
     [0xdd, 0xa9, 0x7c, 0xa4, 0x86, 0x4c, 0xdf, 0xe0,
      0x6e, 0xaf, 0x70, 0xa0, 0xec, 0x0d, 0x71, 0x91]"
  unfolding Encrypt_def Let_def assms ExpandKey_fips197_192 Nr.simps upt_1_12
  by (simp add: LoadState_def StoreState_def AddRoundKeys_def AddRoundKey_def
      EncryptRound_unfold EncryptFinalRound_unfold upt4 GetWordFromBuffer_def PutStateColumn_def
      MixColShiftRow_def SubBytesShiftRows_def replicate16 aes_Sbox aes_Enc Sbox_table_def
      gf_consts xtime_def mkword_def)

lemma fips197_vector_192:
  "\<exists>e. SetKey aes_tables
        [0x00, 0x01, 0x02, 0x03, 0x04, 0x05, 0x06, 0x07,
         0x08, 0x09, 0x0a, 0x0b, 0x0c, 0x0d, 0x0e, 0x0f,
         0x10, 0x11, 0x12, 0x13, 0x14, 0x15, 0x16, 0x17] = Inr e \<and>
      Encrypt aes_tables e
        [0x00, 0x11, 0x22, 0x33, 0x44, 0x55, 0x66, 0x77,
         0x88, 0x99, 0xaa, 0xbb, 0xcc, 0xdd, 0xee, 0xff] =
         [0xdd, 0xa9, 0x7c, 0xa4, 0x86, 0x4c, 0xdf, 0xe0,
          0x6e, 0xaf, 0x70, 0xa0, 0xec, 0x0d, 0x71, 0x91]"
  by (simp add: SetKey_def Let_def Encrypt_fips197_vector_192)

lemma ExpandKey_fips197_256:
  "ExpandKey aes_tables AES256
     [0x00, 0x01, 0x02, 0x03, 0x04, 0x05, 0x06, 0x07,
      0x08, 0x09, 0x0a, 0x0b, 0x0c, 0x0d, 0x0e, 0x0f,
      0x10, 0x11, 0x12, 0x13, 0x14, 0x15, 0x16, 0x17,
      0x18, 0x19, 0x1a, 0x1b, 0x1c, 0x1d, 0x1e, 0x1f] =
   [0x00010203, 0x04050607, 0x08090a0b, 0x0c0d0e0f, 0x10111213, 0x14151617, 0x18191a1b,
    0x1c1d1e1f, 0xa573c29f, 0xa176c498, 0xa97fce93, 0xa572c09c, 0x1651a8cd, 0x0244beda,
    0x1a5da4c1, 0x0640bade, 0xae87dff0, 0x0ff11b68, 0xa68ed5fb, 0x03fc1567, 0x6de1f148,
    0x6fa54f92, 0x75f8eb53, 0x73b8518d, 0xc656827f, 0xc9a79917, 0x6f294cec, 0x6cd5598b,
    0x3de23a75, 0x524775e7, 0x27bf9eb4, 0x5407cf39, 0x0bdc905f, 0xc27b0948, 0xad5245a4,
    0xc1871c2f, 0x45f5a660, 0x17b2d387, 0x300d4d33, 0x640a820a, 0x7ccff71c, 0xbeb4fe54,
    0x13e6bbf0, 0xd261a7df, 0xf01afafe, 0xe7a82979, 0xd7a5644a, 0xb3afe640, 0x2541fe71,
    0x9bf50025, 0x8813bbd5, 0x5a721c0a, 0x4e5a6699, 0xa9f24fe0, 0x7e572baa, 0xcdf8cdea,
    0x24fc79cc, 0xbf0979e9, 0x371ac23c, 0x6d68de36]"
  by (simp add: ExpandKey_def expand_word_def Let_def upt_0_8 GetWordFromBuffer_def SubBytes_def
      RotWord_def RotateLeft_def Rcon_def funpow_numeral aes_Sbox Sbox_table_def xtime_def)

lemma Encrypt_fips197_vector_256:
  assumes "variant e = AES256"
    and "schedule e = ExpandKey aes_tables AES256
      [0x00, 0x01, 0x02, 0x03, 0x04, 0x05, 0x06, 0x07,
      0x08, 0x09, 0x0a, 0x0b, 0x0c, 0x0d, 0x0e, 0x0f,
      0x10, 0x11, 0x12, 0x13, 0x14, 0x15, 0x16, 0x17,
      0x18, 0x19, 0x1a, 0x1b, 0x1c, 0x1d, 0x1e, 0x1f]"
  shows "Encrypt aes_tables e
      [0x00, 0x11, 0x22, 0x33, 0x44, 0x55, 0x66, 0x77,
       0x88, 0x99, 0xaa, 0xbb, 0xcc, 0xdd, 0xee, 0xff] =
     [0x8e, 0xa2, 0xb7, 0xca, 0x51, 0x67, 0x45, 0xbf,
      0xea, 0xfc, 0x49, 0x90, 0x4b, 0x49, 0x60, 0x89]"
  unfolding Encrypt_def Let_def assms ExpandKey_fips197_256 Nr.simps upt_1_14
  by (simp add: LoadState_def StoreState_def AddRoundKeys_def AddRoundKey_def
      EncryptRound_unfold EncryptFinalRound_unfold upt4 GetWordFromBuffer_def PutStateColumn_def
      MixColShiftRow_def SubBytesShiftRows_def replicate16 aes_Sbox aes_Enc Sbox_table_def
      gf_consts xtime_def mkword_def)

lemma fips197_vector_256:
  "\<exists>e. SetKey aes_tables
        [0x00, 0x01, 0x02, 0x03, 0x04, 0x05, 0x06, 0x07,
         0x08, 0x09, 0x0a, 0x0b, 0x0c, 0x0d, 0x0e, 0x0f,
         0x10, 0x11, 0x12, 0x13, 0x14, 0x15, 0x16, 0x17,
         0x18, 0x19, 0x1a, 0x1b, 0x1c, 0x1d, 0x1e, 0x1f] = Inr e \<and>
      Encrypt aes_tables e
        [0x00, 0x11, 0x22, 0x33, 0x44, 0x55, 0x66, 0x77,
         0x88, 0x99, 0xaa, 0xbb, 0xcc, 0xdd, 0xee, 0xff] =
         [0x8e, 0xa2, 0xb7, 0xca, 0x51, 0x67, 0x45, 0xbf,
          0xea, 0xfc, 0x49, 0x90, 0x4b, 0x49, 0x60, 0x89]"
  by (simp add: SetKey_def Let_def Encrypt_fips197_vector_256)

section \<open>The tables as section 4.1 words them\<close>

text \<open>
  \<open>spec_tables\<close> differs from \<open>aes_tables\<close> in that \<open>Enc1\<close> and \<open>Enc3\<close>, and \<open>Dec1\<close>
  and \<open>Dec3\<close>, change places. With it the first vector of section 8 is not reproduced,
  \<^verbatim>\<open>FastInvMixColumn\<close> is not InvMixColumns, and decrypting the ciphertext of the
  plaintext \<open>00112233..ff\<close> under the key \<open>000102..0f\<close> gives
  \<open>98d89937 a2bf21b9 57dff45d 6813e41b\<close>; encrypting its decryption gives
  \<open>93ac205c c782e13c 36fcb02a 214420cd\<close>.
\<close>

lemma rotl_rotr:
  "word_rotl 8 w = word_rotr 24 w"
  "word_rotl 16 w = word_rotr 16 w"
  "word_rotl 24 w = word_rotr 8 w" for w :: u32
  by (simp_all add: word_rotl_eq_word_rotr)

lemma spec_tables_simps:
  "Sbox spec_tables = Sbox aes_tables"
  "InverseSbox spec_tables = InverseSbox aes_tables"
  "Enc0 spec_tables = Enc0 aes_tables"
  "Enc1 spec_tables = Enc3 aes_tables"
  "Enc2 spec_tables = Enc2 aes_tables"
  "Enc3 spec_tables = Enc1 aes_tables"
  "Dec0 spec_tables = Dec0 aes_tables"
  "Dec1 spec_tables = Dec3 aes_tables"
  "Dec2 spec_tables = Dec2 aes_tables"
  "Dec3 spec_tables = Dec1 aes_tables"
  by (simp_all add: spec_tables_def aes_tables_def Let_def rotl_rotr)

lemma ExpandKey_spec_tables: "ExpandKey spec_tables v key = ExpandKey aes_tables v key"
proof -
  have sb: "SubBytes spec_tables = SubBytes aes_tables"
    by (intro ext) (simp add: SubBytes_def spec_tables_simps)
  have "expand_word spec_tables = expand_word aes_tables"
    unfolding expand_word_def [abs_def] sb ..
  then show ?thesis
    by (simp add: ExpandKey_def)
qed

lemma FastInvMixColumn_spec_tables:
  "FastInvMixColumn spec_tables 0x00010000 = 0x090d0b0e"
  "InvMixColumn 0x00010000 = 0x0b0e090d"
  by (simp_all add: FastInvMixColumn_def spec_tables_simps aes_Dec aes_InverseSbox_Sbox
      InvMixColumn_def Let_def byte3_def byte2_def byte1_def byte0_def gf_consts xtime_def
      mkword_def)

lemma Encrypt_spec_tables_128:
  assumes "variant e = AES128"
    and "schedule e = ExpandKey spec_tables AES128
      [0x00, 0x01, 0x02, 0x03, 0x04, 0x05, 0x06, 0x07,
       0x08, 0x09, 0x0a, 0x0b, 0x0c, 0x0d, 0x0e, 0x0f]"
  shows "Encrypt spec_tables e
      [0x00, 0x11, 0x22, 0x33, 0x44, 0x55, 0x66, 0x77,
       0x88, 0x99, 0xaa, 0xbb, 0xcc, 0xdd, 0xee, 0xff] =
     [0x90, 0xd5, 0xec, 0x7a, 0x47, 0x17, 0xfc, 0x65,
      0xa7, 0x64, 0x2e, 0xf5, 0x3f, 0xd1, 0x7b, 0xca]"
  unfolding Encrypt_def Let_def assms ExpandKey_spec_tables ExpandKey_fips197_128 Nr.simps
    upt_1_10
  by (simp add: LoadState_def StoreState_def AddRoundKeys_def AddRoundKey_def
      EncryptRound_unfold EncryptFinalRound_unfold upt4 GetWordFromBuffer_def PutStateColumn_def
      MixColShiftRow_def SubBytesShiftRows_def replicate16 spec_tables_simps aes_Sbox aes_Enc
      Sbox_table_def gf_consts xtime_def mkword_def)

lemma spec_tables_not_fips197:
  "\<exists>e. SetKey spec_tables
        [0x00, 0x01, 0x02, 0x03, 0x04, 0x05, 0x06, 0x07,
         0x08, 0x09, 0x0a, 0x0b, 0x0c, 0x0d, 0x0e, 0x0f] = Inr e \<and>
      Encrypt spec_tables e
        [0x00, 0x11, 0x22, 0x33, 0x44, 0x55, 0x66, 0x77,
         0x88, 0x99, 0xaa, 0xbb, 0xcc, 0xdd, 0xee, 0xff] \<noteq>
         [0x69, 0xc4, 0xe0, 0xd8, 0x6a, 0x7b, 0x04, 0x30,
          0xd8, 0xcd, 0xb7, 0x80, 0x70, 0xb4, 0xc5, 0x5a]"
  by (simp add: SetKey_def Let_def Encrypt_spec_tables_128)

lemma InverseExpandKey_spec_tables_128:
  "InverseExpandKey spec_tables AES128
     [0x00010203, 0x04050607, 0x08090a0b, 0x0c0d0e0f, 0xd6aa74fd, 0xd2af72fa, 0xdaa678f1,
      0xd6ab76fe, 0xb692cf0b, 0x643dbdf1, 0xbe9bc500, 0x6830b3fe, 0xb6ff744e, 0xd2c2c9bf,
      0x6c590cbf, 0x0469bf41, 0x47f7f7bc, 0x95353e03, 0xf96c32bc, 0xfd058dfd, 0x3caaa3e8,
      0xa99f9deb, 0x50f3af57, 0xadf622aa, 0x5e390f7d, 0xf7a69296, 0xa7553dc1, 0x0aa31f6b,
      0x14f9701a, 0xe35fe28c, 0x440adf4d, 0x4ea9c026, 0x47438735, 0xa41c65b9, 0xe016baf4,
      0xaebf7ad2, 0x549932d1, 0xf0855768, 0x1093ed9c, 0xbe2c974e, 0x13111d7f, 0xe3944a17,
      0xf307a78b, 0x4d2b30c5] =
   [0x00010203, 0x04050607, 0x08090a0b, 0x0c0d0e0f, 0x22af7109, 0x28a27906, 0x2ea37d05,
    0x2ca67d02, 0x896b2b29, 0xa1c9522f, 0x8f6a2f2a, 0xa3cc5228, 0xbe0e9a59, 0x1fc7c876,
    0x90ade75c, 0x3361b574, 0x3e7f63d9, 0x21b8abaf, 0xb1154cf3, 0x8274f987, 0xaa0294e1,
    0x8bba3f4e, 0x3aaf73bd, 0xb8db8a3a, 0xfa2f8141, 0x7195be0f, 0x4b3acdb2, 0xf3e14788,
    0x50bc214a, 0x21299f45, 0x6a1352f7, 0x99f2157f, 0xfff848f9, 0xded1d7bc, 0xb4c2854b,
    0x2d309034, 0x8372b966, 0x5da36eda, 0xe961eb91, 0xc4517ba5, 0x13111d7f, 0xe3944a17,
    0xf307a78b, 0x4d2b30c5]"
  by (simp add: InverseExpandKey_def upt_rec [of 0] upt_rec [of "Suc 0"]
      numeral_2_eq_2 [symmetric] FastInvMixColumn_def spec_tables_simps aes_Dec
      aes_InverseSbox_Sbox gf_consts xtime_def mkword_def)

lemma Decrypt_spec_tables_128:
  assumes "variant e = AES128"
    and "inverse_schedule e = InverseExpandKey spec_tables AES128
      (ExpandKey spec_tables AES128
        [0x00, 0x01, 0x02, 0x03, 0x04, 0x05, 0x06, 0x07,
       0x08, 0x09, 0x0a, 0x0b, 0x0c, 0x0d, 0x0e, 0x0f])"
  shows "Decrypt spec_tables e
      [0x90, 0xd5, 0xec, 0x7a, 0x47, 0x17, 0xfc, 0x65,
       0xa7, 0x64, 0x2e, 0xf5, 0x3f, 0xd1, 0x7b, 0xca] =
     [0x98, 0xd8, 0x99, 0x37, 0xa2, 0xbf, 0x21, 0xb9,
      0x57, 0xdf, 0xf4, 0x5d, 0x68, 0x13, 0xe4, 0x1b]"
  unfolding Decrypt_def Let_def assms ExpandKey_spec_tables ExpandKey_fips197_128
    InverseExpandKey_spec_tables_128 Nr.simps upt_1_10
  by (simp add: LoadState_def StoreState_def AddRoundKeys_def AddRoundKey_def
      DecryptRound_unfold DecryptFinalRound_unfold upt4 GetWordFromBuffer_def PutStateColumn_def
      InvMixColShiftRow_def InvSubBytesShiftRows_def replicate16 spec_tables_simps
      aes_InverseSbox aes_Dec InverseSbox_table_def gf_consts xtime_def mkword_def)

lemma Decrypt_spec_tables_128_plain:
  assumes "variant e = AES128"
    and "inverse_schedule e = InverseExpandKey spec_tables AES128
      (ExpandKey spec_tables AES128
        [0x00, 0x01, 0x02, 0x03, 0x04, 0x05, 0x06, 0x07,
       0x08, 0x09, 0x0a, 0x0b, 0x0c, 0x0d, 0x0e, 0x0f])"
  shows "Decrypt spec_tables e
      [0x00, 0x11, 0x22, 0x33, 0x44, 0x55, 0x66, 0x77,
       0x88, 0x99, 0xaa, 0xbb, 0xcc, 0xdd, 0xee, 0xff] =
     [0xb5, 0xcb, 0x0c, 0xfc, 0x74, 0xf4, 0x2f, 0x44,
      0xee, 0x34, 0xcb, 0x82, 0x00, 0x23, 0xbb, 0x9a]"
  unfolding Decrypt_def Let_def assms ExpandKey_spec_tables ExpandKey_fips197_128
    InverseExpandKey_spec_tables_128 Nr.simps upt_1_10
  by (simp add: LoadState_def StoreState_def AddRoundKeys_def AddRoundKey_def
      DecryptRound_unfold DecryptFinalRound_unfold upt4 GetWordFromBuffer_def PutStateColumn_def
      InvMixColShiftRow_def InvSubBytesShiftRows_def replicate16 spec_tables_simps
      aes_InverseSbox aes_Dec InverseSbox_table_def gf_consts xtime_def mkword_def)

lemma Encrypt_spec_tables_128_back:
  assumes "variant e = AES128"
    and "schedule e = ExpandKey spec_tables AES128
      [0x00, 0x01, 0x02, 0x03, 0x04, 0x05, 0x06, 0x07,
       0x08, 0x09, 0x0a, 0x0b, 0x0c, 0x0d, 0x0e, 0x0f]"
  shows "Encrypt spec_tables e
      [0xb5, 0xcb, 0x0c, 0xfc, 0x74, 0xf4, 0x2f, 0x44,
       0xee, 0x34, 0xcb, 0x82, 0x00, 0x23, 0xbb, 0x9a] =
     [0x93, 0xac, 0x20, 0x5c, 0xc7, 0x82, 0xe1, 0x3c,
      0x36, 0xfc, 0xb0, 0x2a, 0x21, 0x44, 0x20, 0xcd]"
  unfolding Encrypt_def Let_def assms ExpandKey_spec_tables ExpandKey_fips197_128 Nr.simps
    upt_1_10
  by (simp add: LoadState_def StoreState_def AddRoundKeys_def AddRoundKey_def
      EncryptRound_unfold EncryptFinalRound_unfold upt4 GetWordFromBuffer_def PutStateColumn_def
      MixColShiftRow_def SubBytesShiftRows_def replicate16 spec_tables_simps aes_Sbox aes_Enc
      Sbox_table_def gf_consts xtime_def mkword_def)

section \<open>The claims\<close>

text \<open>
  C1, as stated: for every key of valid length and every block of 16 bytes,
  \<open>Decrypt (Encrypt P) = P\<close> and \<open>Encrypt (Decrypt P) = P\<close>. With the T-tables as
  section 4.1 of the specification words them (\<open>spec_tables\<close>, rotated to the left) this
  fails: under the key \<open>000102..0f\<close>, decrypting the ciphertext of \<open>00112233..ff\<close> does
  not give the plaintext back, and neither does encrypting its decryption.
\<close>

theorem Encrypt_Decrypt_spec_tables_counterexample:
  "length [0x00, 0x01, 0x02, 0x03, 0x04, 0x05, 0x06, 0x07,
           0x08, 0x09, 0x0a, 0x0b, 0x0c, 0x0d, 0x0e, 0x0f] = 16 \<and>
   length [0x00, 0x11, 0x22, 0x33, 0x44, 0x55, 0x66, 0x77,
           0x88, 0x99, 0xaa, 0xbb, 0xcc, 0xdd, 0xee, 0xff] = 16 \<and>
   SetKey spec_tables
     [0x00, 0x01, 0x02, 0x03, 0x04, 0x05, 0x06, 0x07,
      0x08, 0x09, 0x0a, 0x0b, 0x0c, 0x0d, 0x0e, 0x0f] =
     Inr \<lparr>variant = AES128,
           schedule =
             ExpandKey spec_tables AES128
               [0x00, 0x01, 0x02, 0x03, 0x04, 0x05, 0x06, 0x07,
                0x08, 0x09, 0x0a, 0x0b, 0x0c, 0x0d, 0x0e, 0x0f],
           inverse_schedule =
             InverseExpandKey spec_tables AES128
               (ExpandKey spec_tables AES128
                 [0x00, 0x01, 0x02, 0x03, 0x04, 0x05, 0x06, 0x07,
                  0x08, 0x09, 0x0a, 0x0b, 0x0c, 0x0d, 0x0e, 0x0f])\<rparr> \<and>
   Decrypt spec_tables
     \<lparr>variant = AES128,
       schedule =
         ExpandKey spec_tables AES128
           [0x00, 0x01, 0x02, 0x03, 0x04, 0x05, 0x06, 0x07,
            0x08, 0x09, 0x0a, 0x0b, 0x0c, 0x0d, 0x0e, 0x0f],
       inverse_schedule =
         InverseExpandKey spec_tables AES128
           (ExpandKey spec_tables AES128
             [0x00, 0x01, 0x02, 0x03, 0x04, 0x05, 0x06, 0x07,
              0x08, 0x09, 0x0a, 0x0b, 0x0c, 0x0d, 0x0e, 0x0f])\<rparr>
     (Encrypt spec_tables
        \<lparr>variant = AES128,
          schedule =
            ExpandKey spec_tables AES128
              [0x00, 0x01, 0x02, 0x03, 0x04, 0x05, 0x06, 0x07,
               0x08, 0x09, 0x0a, 0x0b, 0x0c, 0x0d, 0x0e, 0x0f],
          inverse_schedule =
            InverseExpandKey spec_tables AES128
              (ExpandKey spec_tables AES128
                [0x00, 0x01, 0x02, 0x03, 0x04, 0x05, 0x06, 0x07,
                 0x08, 0x09, 0x0a, 0x0b, 0x0c, 0x0d, 0x0e, 0x0f])\<rparr>
        [0x00, 0x11, 0x22, 0x33, 0x44, 0x55, 0x66, 0x77,
         0x88, 0x99, 0xaa, 0xbb, 0xcc, 0xdd, 0xee, 0xff]) \<noteq>
     [0x00, 0x11, 0x22, 0x33, 0x44, 0x55, 0x66, 0x77,
      0x88, 0x99, 0xaa, 0xbb, 0xcc, 0xdd, 0xee, 0xff] \<and>
   Encrypt spec_tables
     \<lparr>variant = AES128,
       schedule =
         ExpandKey spec_tables AES128
           [0x00, 0x01, 0x02, 0x03, 0x04, 0x05, 0x06, 0x07,
            0x08, 0x09, 0x0a, 0x0b, 0x0c, 0x0d, 0x0e, 0x0f],
       inverse_schedule =
         InverseExpandKey spec_tables AES128
           (ExpandKey spec_tables AES128
             [0x00, 0x01, 0x02, 0x03, 0x04, 0x05, 0x06, 0x07,
              0x08, 0x09, 0x0a, 0x0b, 0x0c, 0x0d, 0x0e, 0x0f])\<rparr>
     (Decrypt spec_tables
        \<lparr>variant = AES128,
          schedule =
            ExpandKey spec_tables AES128
              [0x00, 0x01, 0x02, 0x03, 0x04, 0x05, 0x06, 0x07,
               0x08, 0x09, 0x0a, 0x0b, 0x0c, 0x0d, 0x0e, 0x0f],
          inverse_schedule =
            InverseExpandKey spec_tables AES128
              (ExpandKey spec_tables AES128
                [0x00, 0x01, 0x02, 0x03, 0x04, 0x05, 0x06, 0x07,
                 0x08, 0x09, 0x0a, 0x0b, 0x0c, 0x0d, 0x0e, 0x0f])\<rparr>
        [0x00, 0x11, 0x22, 0x33, 0x44, 0x55, 0x66, 0x77,
         0x88, 0x99, 0xaa, 0xbb, 0xcc, 0xdd, 0xee, 0xff]) \<noteq>
     [0x00, 0x11, 0x22, 0x33, 0x44, 0x55, 0x66, 0x77,
      0x88, 0x99, 0xaa, 0xbb, 0xcc, 0xdd, 0xee, 0xff]"
  by (simp add: SetKey_def Let_def Encrypt_spec_tables_128 Decrypt_spec_tables_128
      Decrypt_spec_tables_128_plain Encrypt_spec_tables_128_back)

text \<open>
  C1, amended. With the T-tables rotated to the right by \<open>8\<cdot>k\<close> bits (\<open>aes_tables\<close>:
  \<open>Enc_k[b]\<close> and \<open>Dec_k[b]\<close> are column \<open>k\<close> of the MixColumns and of the inverse
  MixColumns matrix times \<open>S[b]\<close> and \<open>IS[b]\<close>), for every key of 16, 24 or 32 bytes and
  every block of 16 bytes, key setup succeeds, \<^verbatim>\<open>Encrypt\<close> and \<^verbatim>\<open>Decrypt\<close> return
  blocks of 16 bytes, and under the same key \<open>Decrypt (Encrypt P) = P\<close> and
  \<open>Encrypt (Decrypt P) = P\<close>: the two are mutually inverse bijections on 16-byte blocks.
\<close>

theorem Encrypt_Decrypt_inverse:
  assumes "length key = 16 \<or> length key = 24 \<or> length key = 32"
    and "length P = 16"
  shows "\<exists>e. SetKey aes_tables key = Inr e \<and>
           length (Encrypt aes_tables e P) = 16 \<and>
           length (Decrypt aes_tables e P) = 16 \<and>
           Decrypt aes_tables e (Encrypt aes_tables e P) = P \<and>
           Encrypt aes_tables e (Decrypt aes_tables e P) = P"
proof -
  obtain v where e: "SetKey aes_tables key =
      Inr \<lparr>variant = v, schedule = ExpandKey aes_tables v key,
        inverse_schedule = InverseExpandKey aes_tables v (ExpandKey aes_tables v key)\<rparr>"
    (is "_ = Inr ?e")
    using SetKey_Inr [OF assms(1)] by blast
  have W: "length (schedule ?e) = (Nr (variant ?e) + 1) * 4"
    by (simp add: length_ExpandKey)
  have W': "inverse_schedule ?e = InverseExpandKey aes_tables (variant ?e) (schedule ?e)"
    by simp
  show ?thesis
    using e Decrypt_Encrypt_schedules [OF W W' assms(2)]
      Encrypt_Decrypt_schedules [OF W W' assms(2)]
    by (simp add: Encrypt_def Decrypt_def Let_def length_StoreState)
qed

theorem Encrypt_Decrypt_inverse_witness:
  "(length [0x2b, 0x7e, 0x15, 0x16, 0x28, 0xae, 0xd2, 0xa6,
            0xab, 0xf7, 0x15, 0x88, 0x09, 0xcf, 0x4f, 0x3c :: u8] = 16 \<or>
    length [0x2b, 0x7e, 0x15, 0x16, 0x28, 0xae, 0xd2, 0xa6,
            0xab, 0xf7, 0x15, 0x88, 0x09, 0xcf, 0x4f, 0x3c :: u8] = 24 \<or>
    length [0x2b, 0x7e, 0x15, 0x16, 0x28, 0xae, 0xd2, 0xa6,
            0xab, 0xf7, 0x15, 0x88, 0x09, 0xcf, 0x4f, 0x3c :: u8] = 32) \<and>
   length [0x32, 0x43, 0xf6, 0xa8, 0x88, 0x5a, 0x30, 0x8d,
           0x31, 0x31, 0x98, 0xa2, 0xe0, 0x37, 0x07, 0x34 :: u8] = 16 \<and>
   (\<exists>e. SetKey aes_tables
          [0x2b, 0x7e, 0x15, 0x16, 0x28, 0xae, 0xd2, 0xa6,
           0xab, 0xf7, 0x15, 0x88, 0x09, 0xcf, 0x4f, 0x3c] = Inr e \<and>
        Decrypt aes_tables e (Encrypt aes_tables e
          [0x32, 0x43, 0xf6, 0xa8, 0x88, 0x5a, 0x30, 0x8d,
           0x31, 0x31, 0x98, 0xa2, 0xe0, 0x37, 0x07, 0x34]) =
          [0x32, 0x43, 0xf6, 0xa8, 0x88, 0x5a, 0x30, 0x8d,
           0x31, 0x31, 0x98, 0xa2, 0xe0, 0x37, 0x07, 0x34] \<and>
        Encrypt aes_tables e (Decrypt aes_tables e
          [0x32, 0x43, 0xf6, 0xa8, 0x88, 0x5a, 0x30, 0x8d,
           0x31, 0x31, 0x98, 0xa2, 0xe0, 0x37, 0x07, 0x34]) =
          [0x32, 0x43, 0xf6, 0xa8, 0x88, 0x5a, 0x30, 0x8d,
           0x31, 0x31, 0x98, 0xa2, 0xe0, 0x37, 0x07, 0x34])"
proof -
  let ?key = "[0x2b, 0x7e, 0x15, 0x16, 0x28, 0xae, 0xd2, 0xa6,
               0xab, 0xf7, 0x15, 0x88, 0x09, 0xcf, 0x4f, 0x3c :: u8]"
  let ?P = "[0x32, 0x43, 0xf6, 0xa8, 0x88, 0x5a, 0x30, 0x8d,
             0x31, 0x31, 0x98, 0xa2, 0xe0, 0x37, 0x07, 0x34 :: u8]"
  have k: "length ?key = 16 \<or> length ?key = 24 \<or> length ?key = 32"
    by simp
  have p: "length ?P = 16"
    by simp
  from Encrypt_Decrypt_inverse [OF k p] k p show ?thesis
    by blast
qed

text \<open>
  C2, as stated: with the Dec tables built as section 4.1 specifies, \<open>FastInvMixColumn w\<close>
  equals InvMixColumns of \<open>w\<close>. With the tables as section 4.1 words them
  (\<open>spec_tables\<close>, rotated to the left) this fails at \<open>w = 0x00010000\<close>:
  \<open>FastInvMixColumn\<close> gives \<open>0x090d0b0e\<close>, InvMixColumns \<open>0x0b0e090d\<close>.
\<close>

theorem FastInvMixColumn_spec_tables_counterexample:
  "FastInvMixColumn spec_tables 0x00010000 \<noteq> InvMixColumn 0x00010000"
  by (simp add: FastInvMixColumn_spec_tables)

text \<open>
  C2, amended. For every 32-bit word \<open>w\<close> and whatever the tables are,
  \<open>FastInvMixColumn w = Dec0[S[byte3 w]] XOR Dec1[S[byte2 w]] XOR Dec2[S[byte1 w]] XOR
  Dec3[S[byte0 w]]\<close>; and with the Dec tables built from the inverse S-box and the inverse
  MixColumns matrix with the rotation by \<open>8\<cdot>k\<close> bits taken to the right (\<open>aes_tables\<close>),
  this value is InvMixColumns of \<open>w\<close> itself, a word that has not been passed through
  InvSubBytes.
\<close>

theorem FastInvMixColumn_InvMixColumns:
  "FastInvMixColumn T w =
     Dec0 T (Sbox T (byte3 w)) XOR Dec1 T (Sbox T (byte2 w)) XOR
     Dec2 T (Sbox T (byte1 w)) XOR Dec3 T (Sbox T (byte0 w)) \<and>
   FastInvMixColumn aes_tables w = InvMixColumn w"
  by (simp add: FastInvMixColumn_aes) (simp add: FastInvMixColumn_def idx)

text \<open>
  C3. For every column index \<open>c\<close> in \<open>[0,4)\<close> and every state of four 32-bit words,
  \<open>MixColShiftRow c state = Enc0[byte3 state[c mod 4]] XOR Enc1[byte2 state[(c+1) mod 4]]
  XOR Enc2[byte1 state[(c+2) mod 4]] XOR Enc3[byte0 state[(c+3) mod 4]]\<close>, \<open>byte3\<close> being
  the most significant byte of a word.
\<close>

theorem MixColShiftRow_formula:
  assumes "c < 4" and "length state = 4"
  shows "MixColShiftRow T c state =
     Enc0 T (byte3 (state ! (c mod 4))) XOR Enc1 T (byte2 (state ! ((c + 1) mod 4))) XOR
     Enc2 T (byte1 (state ! ((c + 2) mod 4))) XOR Enc3 T (byte0 (state ! ((c + 3) mod 4)))"
  by (simp add: MixColShiftRow_def idx add.commute)

theorem MixColShiftRow_formula_witness:
  "(3 :: nat) < 4 \<and> length [0x00112233, 0x44556677, 0x8899aabb, 0xccddeeff :: u32] = 4 \<and>
   MixColShiftRow aes_tables 3 [0x00112233, 0x44556677, 0x8899aabb, 0xccddeeff] =
     Enc0 aes_tables (byte3 ([0x00112233, 0x44556677, 0x8899aabb, 0xccddeeff] ! (3 mod 4))) XOR
     Enc1 aes_tables (byte2 ([0x00112233, 0x44556677, 0x8899aabb, 0xccddeeff] ! ((3 + 1) mod 4))) XOR
     Enc2 aes_tables (byte1 ([0x00112233, 0x44556677, 0x8899aabb, 0xccddeeff] ! ((3 + 2) mod 4))) XOR
     Enc3 aes_tables (byte0 ([0x00112233, 0x44556677, 0x8899aabb, 0xccddeeff] ! ((3 + 3) mod 4)))"
proof -
  have c: "(3 :: nat) < 4"
    by simp
  have l: "length [0x00112233, 0x44556677, 0x8899aabb, 0xccddeeff :: u32] = 4"
    by simp
  from MixColShiftRow_formula [OF c l, of aes_tables] c l show ?thesis
    by blast
qed

text \<open>
  C4. For every column index \<open>c\<close> in \<open>[0,4)\<close> and every state of four 32-bit words,
  \<open>InvMixColShiftRow c state = Dec0[byte3 state[c mod 4]] XOR
  Dec1[byte2 state[(c+3) mod 4]] XOR Dec2[byte1 state[(c+2) mod 4]] XOR
  Dec3[byte0 state[(c+1) mod 4]]\<close>, and the column offsets \<open>c, c+3, c+2, c+1\<close> implement
  InvShiftRows: the four bytes looked up are rows 0 to 3 of column \<open>c\<close> of the state after
  InvShiftRows.
\<close>

theorem InvMixColShiftRow_formula:
  assumes "c < 4" and "length state = 4"
  shows "InvMixColShiftRow T c state =
       Dec0 T (byte3 (state ! (c mod 4))) XOR Dec1 T (byte2 (state ! ((c + 3) mod 4))) XOR
       Dec2 T (byte1 (state ! ((c + 2) mod 4))) XOR Dec3 T (byte0 (state ! ((c + 1) mod 4))) \<and>
     InvMixColShiftRow T c state =
       Dec0 T (InvShiftRows state 0 c) XOR Dec1 T (InvShiftRows state 1 c) XOR
       Dec2 T (InvShiftRows state 2 c) XOR Dec3 T (InvShiftRows state 3 c)"
  using col_cases [OF assms(1)]
  by (auto simp add: InvMixColShiftRow_def idx InvShiftRows_def cell_def)

theorem InvMixColShiftRow_formula_witness:
  "(1 :: nat) < 4 \<and> length [0x00112233, 0x44556677, 0x8899aabb, 0xccddeeff :: u32] = 4 \<and>
   InvMixColShiftRow aes_tables 1 [0x00112233, 0x44556677, 0x8899aabb, 0xccddeeff] =
     Dec0 aes_tables 0x44 XOR Dec1 aes_tables 0x11 XOR
     Dec2 aes_tables 0xee XOR Dec3 aes_tables 0xbb"
proof -
  have c: "(1 :: nat) < 4"
    by simp
  have l: "length [0x00112233, 0x44556677, 0x8899aabb, 0xccddeeff :: u32] = 4"
    by simp
  from InvMixColShiftRow_formula [OF c l, of aes_tables] show ?thesis
    by (simp add: byte3_def byte2_def byte1_def byte0_def)
qed

text \<open>
  C5. For every byte buffer of length at least \<open>4c + 4\<close>, \<open>GetWordFromBuffer buffer c\<close>
  is \<open>buffer[4c]\<cdot>2^24 | buffer[4c+1]\<cdot>2^16 | buffer[4c+2]\<cdot>2^8 | buffer[4c+3]\<close>, the
  big-endian 32-bit word formed from the four bytes at offset \<open>4c\<close>: its value is
  \<open>buffer[4c]\<cdot>2^24 + buffer[4c+1]\<cdot>2^16 + buffer[4c+2]\<cdot>2^8 + buffer[4c+3]\<close>.
\<close>

theorem GetWordFromBuffer_big_endian:
  assumes "4 * c + 4 \<le> length buffer"
  shows "GetWordFromBuffer buffer c =
       ucast (buffer ! (4 * c)) * 2 ^ 24 OR ucast (buffer ! (4 * c + 1)) * 2 ^ 16 OR
       ucast (buffer ! (4 * c + 2)) * 2 ^ 8 OR ucast (buffer ! (4 * c + 3)) \<and>
     unat (GetWordFromBuffer buffer c) =
       unat (buffer ! (4 * c)) * 2 ^ 24 + unat (buffer ! (4 * c + 1)) * 2 ^ 16 +
       unat (buffer ! (4 * c + 2)) * 2 ^ 8 + unat (buffer ! (4 * c + 3))"
proof
  show "GetWordFromBuffer buffer c =
      ucast (buffer ! (4 * c)) * 2 ^ 24 OR ucast (buffer ! (4 * c + 1)) * 2 ^ 16 OR
      ucast (buffer ! (4 * c + 2)) * 2 ^ 8 OR ucast (buffer ! (4 * c + 3))"
    by (simp add: GetWordFromBuffer_def push_bit_eq_mult)
  show "unat (GetWordFromBuffer buffer c) =
      unat (buffer ! (4 * c)) * 2 ^ 24 + unat (buffer ! (4 * c + 1)) * 2 ^ 16 +
      unat (buffer ! (4 * c + 2)) * 2 ^ 8 + unat (buffer ! (4 * c + 3))"
    by (simp only: Get_mkword unat_mkword)
qed

theorem GetWordFromBuffer_big_endian_witness:
  "4 * 1 + 4 \<le> length [0x00, 0x11, 0x22, 0x33, 0x44, 0x55, 0x66, 0x77 :: u8] \<and>
   GetWordFromBuffer [0x00, 0x11, 0x22, 0x33, 0x44, 0x55, 0x66, 0x77] 1 = 0x44556677 \<and>
   unat (GetWordFromBuffer [0x00, 0x11, 0x22, 0x33, 0x44, 0x55, 0x66, 0x77] 1) =
     0x44 * 2 ^ 24 + 0x55 * 2 ^ 16 + 0x66 * 2 ^ 8 + 0x77"
proof -
  have l: "4 * 1 + 4 \<le> length [0x00, 0x11, 0x22, 0x33, 0x44, 0x55, 0x66, 0x77 :: u8]"
    by simp
  from GetWordFromBuffer_big_endian [OF l] l show ?thesis
    by simp
qed

text \<open>
  C6. For every 32-bit word \<open>w\<close>, every column index \<open>c\<close> in \<open>[0,4)\<close> and every output
  block of 16 bytes, \<open>PutStateColumn w c out\<close> writes the four bytes of \<open>w\<close> into
  \<open>out[4c..4c+3]\<close>, most significant byte first, and nothing else: the block keeps its
  length and every byte outside \<open>[4c, 4c+4)\<close>.
\<close>

theorem PutStateColumn_bytes:
  assumes "c < 4" and "length out = 16"
  shows "length (PutStateColumn w c out) = 16 \<and>
     PutStateColumn w c out ! (4 * c) = byte3 w \<and>
     PutStateColumn w c out ! (4 * c + 1) = byte2 w \<and>
     PutStateColumn w c out ! (4 * c + 2) = byte1 w \<and>
     PutStateColumn w c out ! (4 * c + 3) = byte0 w \<and>
     (\<forall>i. i < 4 * c \<or> 4 * c + 4 \<le> i \<longrightarrow> PutStateColumn w c out ! i = out ! i)"
  using assms
  by (auto simp add: Put_bytes nth_list_update)

theorem PutStateColumn_bytes_witness:
  "(2 :: nat) < 4 \<and> length (replicate 16 (0 :: u8)) = 16 \<and>
   PutStateColumn 0x8899aabb 2 (replicate 16 0) =
     [0, 0, 0, 0, 0, 0, 0, 0, 0x88, 0x99, 0xaa, 0xbb, 0, 0, 0, 0]"
proof -
  have c: "(2 :: nat) < 4"
    by simp
  have l: "length (replicate 16 (0 :: u8)) = 16"
    by simp
  have "PutStateColumn 0x8899aabb 2 (replicate 16 0) ! (4 * 2) = byte3 0x8899aabb"
    using PutStateColumn_bytes [OF c l, of "0x8899aabb"] by blast
  then show ?thesis
    by (simp add: PutStateColumn_def replicate16)
qed

text \<open>
  C7. For every 32-bit word \<open>w\<close>, \<open>RotWord w\<close> is the left rotation of \<open>w\<close> by 8 bits
  within 32 bits, that is \<open>((w << 8) | (w >> 24))\<close> masked to 32 bits.
\<close>

theorem RotWord_rotate_left:
  "RotWord w = word_rotl 8 w \<and> RotWord w = (push_bit 8 w OR drop_bit 24 w) AND mask 32"
  by (simp add: RotWord_rotl [symmetric]) (simp add: RotWord_def RotateLeft_def mask_eq_exp_minus_1)

text \<open>
  C8. When the Intel-intrinsics path is not compiled in, \<open>CPUSupportsAES_NI\<close> is false.
  Otherwise, with the CPUID instruction as an oracle, it is false if CPUID leaf 0 reports
  a maximum supported function id less than 1, and else it is true exactly when bit 25
  (mask 0x02000000) of ECX from CPUID leaf 1 is set. The function id is compared as the
  code holds it: as an unsigned 32-bit value in the Linux and inline-assembly bodies, as
  an \<^verbatim>\<open>int\<close> in the Windows body.
\<close>

theorem CPUSupportsAES_NI_cases:
  "INTEL_AES_BIT = 0x02000000 \<and>
   CPUSupportsAES_NI NoIntrinsics cpuid = False \<and>
   CPUSupportsAES_NI Linux cpuid =
     (if unat (eax (cpuid 0)) < 1 then False else bit (ecx (cpuid 1)) 25) \<and>
   CPUSupportsAES_NI OtherX86 cpuid =
     (if unat (eax (cpuid 0)) < 1 then False else bit (ecx (cpuid 1)) 25) \<and>
   CPUSupportsAES_NI Win32 cpuid =
     (if sint (eax (cpuid 0)) < 1 then False else bit (ecx (cpuid 1)) 25)"
proof -
  have b: "(w AND INTEL_AES_BIT \<noteq> 0) = bit w 25" for w
    by (simp only: INTEL_AES_BIT_def bit_iff_and_push_bit_not_eq_0)
  have "INTEL_AES_BIT = 0x02000000"
    by (simp add: INTEL_AES_BIT_def)
  then show ?thesis
    by (simp add: b word_less_nat_alt)
qed

text \<open>
  C9. For every 32-bit word \<open>w\<close>, every column index \<open>c\<close> in \<open>[0,4)\<close> and every buffer of
  16 bytes, \<open>GetWordFromBuffer\<close> at \<open>c\<close> after \<open>PutStateColumn w c\<close> returns \<open>w\<close>, and
  \<open>PutStateColumn\<close> leaves the bytes outside \<open>[4c, 4c+4)\<close> unchanged.
\<close>

theorem GetWordFromBuffer_PutStateColumn:
  assumes "c < 4" and "length buffer = 16"
  shows "GetWordFromBuffer (PutStateColumn w c buffer) c = w \<and>
     (\<forall>i < 16. i < 4 * c \<or> 4 * c + 4 \<le> i \<longrightarrow> PutStateColumn w c buffer ! i = buffer ! i)"
  using assms
  by (auto simp add: Get_mkword Put_bytes nth_list_update mkword_bytes)

theorem GetWordFromBuffer_PutStateColumn_witness:
  "(3 :: nat) < 4 \<and>
   length [0x00, 0x11, 0x22, 0x33, 0x44, 0x55, 0x66, 0x77,
           0x88, 0x99, 0xaa, 0xbb, 0xcc, 0xdd, 0xee, 0xff :: u8] = 16 \<and>
   GetWordFromBuffer (PutStateColumn 0xdeadbeef 3
     [0x00, 0x11, 0x22, 0x33, 0x44, 0x55, 0x66, 0x77,
      0x88, 0x99, 0xaa, 0xbb, 0xcc, 0xdd, 0xee, 0xff]) 3 = 0xdeadbeef \<and>
   PutStateColumn 0xdeadbeef 3
     [0x00, 0x11, 0x22, 0x33, 0x44, 0x55, 0x66, 0x77,
      0x88, 0x99, 0xaa, 0xbb, 0xcc, 0xdd, 0xee, 0xff] ! 11 = 0xbb"
proof -
  let ?b = "[0x00, 0x11, 0x22, 0x33, 0x44, 0x55, 0x66, 0x77,
             0x88, 0x99, 0xaa, 0xbb, 0xcc, 0xdd, 0xee, 0xff :: u8]"
  have c: "(3 :: nat) < 4"
    by simp
  have l: "length ?b = 16"
    by simp
  from GetWordFromBuffer_PutStateColumn [OF c l, of "0xdeadbeef"] c l show ?thesis
    by simp
qed

text \<open>
  C10. If \<open>InverseSbox[Sbox[b]] = b\<close> for every byte \<open>b\<close>, then \<open>InvSubBytesShiftRows\<close>
  inverts \<open>SubBytesShiftRows\<close> on states: for every state \<open>s\<close> of four 32-bit words, if
  \<open>t[k] = SubBytesShiftRows k s\<close> for each \<open>k\<close> in \<open>[0,4)\<close>, then
  \<open>InvSubBytesShiftRows c t = s[c]\<close> for every column \<open>c\<close> in \<open>[0,4)\<close>.
\<close>

theorem InvSubBytesShiftRows_inverts:
  assumes "\<forall>b. InverseSbox T (Sbox T b) = b"
    and "length s = 4"
    and "c < 4"
    and "t = map (\<lambda>k. SubBytesShiftRows T k s) [0..<4]"
  shows "InvSubBytesShiftRows T c t = s ! c"
  unfolding assms(4)
  using assms(1-3)
  by (rule InvSubBytesShiftRows_SubShift)

theorem InvSubBytesShiftRows_inverts_witness:
  "(\<forall>b. InverseSbox aes_tables (Sbox aes_tables b) = b) \<and>
   length [0x00112233, 0x44556677, 0x8899aabb, 0xccddeeff :: u32] = 4 \<and>
   (2 :: nat) < 4 \<and>
   InvSubBytesShiftRows aes_tables 2
     (map (\<lambda>k. SubBytesShiftRows aes_tables k [0x00112233, 0x44556677, 0x8899aabb, 0xccddeeff])
       [0..<4]) = 0x8899aabb"
proof -
  have i: "\<forall>b. InverseSbox aes_tables (Sbox aes_tables b) = b"
    by (simp add: aes_InverseSbox_Sbox)
  have l: "length [0x00112233, 0x44556677, 0x8899aabb, 0xccddeeff :: u32] = 4"
    by simp
  have c: "(2 :: nat) < 4"
    by simp
  from InvSubBytesShiftRows_inverts [OF i l c refl] i l c show ?thesis
    by simp
qed

end
